theory Spec2Isabelle
  imports Main "HOL-Library.Countable"
begin

section \<open>The DataHub Soda plugin: scan results to assertions\<close>

text \<open>
  A shallow embedding of \<^verbatim>\<open>datahub_soda_plugin/handler.py\<close>. Every function of the
  handler is a HOL function of the same name (a leading underscore is dropped). A Python
  exception is a value of type \<open>exn\<close>, and a function that may raise returns
  \<open>exn + 'a\<close>, with \<open>Inl\<close> for the raised exception. Calls to the logger, calls to
  the REST emitter and readings of the clock are effects on an explicit \<open>world\<close>.
\<close>

subsection \<open>Python values\<close>

text \<open>
  A float is kept as sign, mantissa and binary exponent (the value is
  \<open>\<plusminus> mantissa * 2 ^ exponent\<close>), or as an infinity (\<open>Infinity True\<close> is the negative
  one) or NaN. Only truncation to an integer and the zero test are used by the handler.
\<close>

datatype pyfloat = Finite bool nat int | Infinity bool | NaN

text \<open>
  The values a parsed JSON document is made of. \<open>JNull\<close> is Python's \<open>None\<close>; a dict
  is an association list in insertion order, read with \<open>map_of\<close>.
\<close>

datatype json =
    JNull
  | JBool bool
  | JInt int
  | JFloat pyfloat
  | JStr string
  | JList "json list"
  | JDict "(string \<times> json) list"

type_synonym pydict = "(string \<times> json) list"

datatype exn_kind =
  AttributeError | TypeError | ValueError | OverflowError | AssertionError | LibraryError

text \<open>
  All kinds are subclasses of Python's \<open>Exception\<close>: \<open>LibraryError\<close> stands for any
  exception class of the DataHub SDK or of the HTTP transport.
\<close>

datatype exn = Exn exn_kind string

fun kind :: "exn \<Rightarrow> exn_kind" where
  "kind (Exn k m) = k"

fun str_exn :: "exn \<Rightarrow> string" where
  "str_exn (Exn k m) = m"

fun type_name :: "json \<Rightarrow> string" where
  "type_name JNull = ''NoneType''"
| "type_name (JBool b) = ''bool''"
| "type_name (JInt i) = ''int''"
| "type_name (JFloat f) = ''float''"
| "type_name (JStr s) = ''str''"
| "type_name (JList xs) = ''list''"
| "type_name (JDict kvs) = ''dict''"

definition no_attribute :: "json \<Rightarrow> string \<Rightarrow> exn" where
  "no_attribute v a =
     Exn AttributeError ([CHR 0x27] @ type_name v @ [CHR 0x27] @ '' object has no attribute ''
       @ [CHR 0x27] @ a @ [CHR 0x27])"

text \<open>Truth value of an object in a condition (\<^verbatim>\<open>if x:\<close>, \<^verbatim>\<open>x or y\<close>).\<close>

fun truthy :: "json \<Rightarrow> bool" where
  "truthy JNull = False"
| "truthy (JBool b) = b"
| "truthy (JInt i) = (i \<noteq> 0)"
| "truthy (JFloat (Finite s m e)) = (m \<noteq> 0)"
| "truthy (JFloat (Infinity s)) = True"
| "truthy (JFloat NaN) = True"
| "truthy (JStr s) = (s \<noteq> [])"
| "truthy (JList xs) = (xs \<noteq> [])"
| "truthy (JDict kvs) = (kvs \<noteq> [])"

text \<open>\<^verbatim>\<open>d.get(key, default)\<close> on a dict.\<close>

definition dict_get :: "pydict \<Rightarrow> string \<Rightarrow> json \<Rightarrow> json" where
  "dict_get d k dflt = (case map_of d k of Some v \<Rightarrow> v | None \<Rightarrow> dflt)"

text \<open>\<^verbatim>\<open>x.get(key, default)\<close> on a value that may not be a dict.\<close>

fun py_get :: "json \<Rightarrow> string \<Rightarrow> json \<Rightarrow> exn + json" where
  "py_get (JDict d) k dflt = Inr (dict_get d k dflt)"
| "py_get v k dflt = Inl (no_attribute v ''get'')"

text \<open>The elements a \<^verbatim>\<open>for\<close> loop over a value visits.\<close>

fun py_iter :: "json \<Rightarrow> exn + json list" where
  "py_iter (JList xs) = Inr xs"
| "py_iter (JDict d) = Inr (map (\<lambda>kv. JStr (fst kv)) d)"
| "py_iter (JStr s) = Inr (map (\<lambda>c. JStr [c]) s)"
| "py_iter v =
     Inl (Exn TypeError ([CHR 0x27] @ type_name v @ [CHR 0x27] @ '' object is not iterable''))"

subsection \<open>Text\<close>

text \<open>
  The fold of the 26 capital letters A to Z to small letters; every other character is
  kept. On a text of ASCII characters this is \<^verbatim>\<open>str.lower()\<close>. The handler reads
  the lower-cased outcome and the lower-cased check type only through tests against
  literals of small ASCII letters (membership in a list, the substring test), and the
  fold decides these tests as \<^verbatim>\<open>str.lower()\<close> does on any text: a character
  other than A to Z lowers to no ASCII letter, but for U+212A, which gives \<open>k\<close>, a
  letter of none of the literals, and U+0130, which gives \<open>i\<close> followed by U+0307. The
  lower-casing of a name that becomes part of a URN is not this fold but the field
  \<open>str_lower\<close> of the library below.
\<close>

definition ascii_uppercase :: string where
  "ascii_uppercase = ''ABCDEFGHIJKLMNOPQRSTUVWXYZ''"

definition ascii_lowercase :: string where
  "ascii_lowercase = ''abcdefghijklmnopqrstuvwxyz''"

definition lower_char :: "char \<Rightarrow> char" where
  "lower_char c =
     (case map_of (zip ascii_uppercase ascii_lowercase) c of Some l \<Rightarrow> l | None \<Rightarrow> c)"

definition py_lower :: "string \<Rightarrow> string" where
  "py_lower s = map lower_char s"

text \<open>\<^verbatim>\<open>x.lower()\<close> on a value that may not be a string, for the tests on its result.\<close>

fun lower_method :: "json \<Rightarrow> exn + string" where
  "lower_method (JStr s) = Inr (py_lower s)"
| "lower_method v = Inl (no_attribute v ''lower'')"

fun starts_with :: "string \<Rightarrow> string \<Rightarrow> bool" where
  "starts_with [] s = True"
| "starts_with (a # as) [] = False"
| "starts_with (a # as) (b # bs) = (a = b \<and> starts_with as bs)"

text \<open>\<^verbatim>\<open>sub in s\<close> for two strings: \<open>sub\<close> occurs in \<open>s\<close> as a contiguous run.\<close>

fun str_contains :: "string \<Rightarrow> string \<Rightarrow> bool" where
  "str_contains sub [] = (sub = [])"
| "str_contains sub (c # cs) = (starts_with sub (c # cs) \<or> str_contains sub cs)"

text \<open>\<^verbatim>\<open>str(n)\<close> for an integer: its decimal digits, with a minus sign when negative.\<close>

fun str_nat :: "nat \<Rightarrow> string" where
  "str_nat n =
     (if n < 10 then [char_of (48 + n)] else str_nat (n div 10) @ [char_of (48 + n mod 10)])"

declare str_nat.simps [simp del]

definition str_int :: "int \<Rightarrow> string" where
  "str_int i = (if i < 0 then CHR ''-'' # str_nat (nat (- i)) else str_nat (nat i))"

subsection \<open>Metadata aspects\<close>

text \<open>
  The classes of the metadata model that the handler builds, with the fields it sets.
  Of each enumeration only the members the handler uses are listed.
\<close>

datatype AssertionResultType = SUCCESS | FAILURE

datatype AssertionRunStatus = COMPLETE

datatype AssertionType = DATASET

datatype DatasetAssertionScope = DATASET_ROWS | DATASET_COLUMN | DATASET_SCHEMA

datatype AssertionStdOperator = OPERATOR_NATIVE | NOT_NULL

datatype AssertionStdAggregation =
  AGGREGATION_NATIVE | IDENTITY | UNIQUE_COUNT | ROW_COUNT | COLUMNS

record DatasetAssertionInfo =
  dataset :: string
  datasetFields :: "string list option"
  operator :: AssertionStdOperator
  aggregation :: AssertionStdAggregation
  nativeType :: json
  nativeParameters :: pydict
  scope :: DatasetAssertionScope

record AssertionInfo =
  assertionType :: AssertionType
  datasetAssertion :: DatasetAssertionInfo
  customProperties :: pydict

record AssertionResult =
  resultType :: AssertionResultType
  rowCount :: "int option"
  missingCount :: "int option"
  unexpectedCount :: "int option"
  actualAggValue :: "json option"
  nativeResults :: "(string \<times> string) list"

record BatchSpec =
  nativeBatchId :: string
  query :: json
  batchCustomProperties :: pydict

record AssertionRunEvent =
  timestampMillis :: int
  assertionUrn :: string
  asserteeUrn :: string
  runId :: string
  result :: AssertionResult
  batchSpec :: BatchSpec
  status :: AssertionRunStatus

record DataPlatformInstance =
  platform :: string

datatype aspect =
    InfoAspect AssertionInfo
  | PlatformAspect DataPlatformInstance
  | RunAspect AssertionRunEvent

record MetadataChangeProposalWrapper =
  entityUrn :: string
  aspect :: aspect

subsection \<open>The handler object and its collaborators\<close>

record DataHubSodaHandler =
  server_url :: string
  env :: string
  platform_alias :: "string option"
  platform_instance_map :: "(string \<times> string) list"
  graceful_exceptions :: bool
  token :: "string option"
  timeout_sec :: "pyfloat option"
  retry_status_codes :: "int list option"
  retry_max_times :: "int option"
  extra_headers :: "(string \<times> string) list option"
  convert_urns_to_lowercase :: bool

text \<open>A \<^verbatim>\<open>datetime\<close>, and one reading of \<^verbatim>\<open>time.time()\<close> in the two roundings
  the handler takes of it: \<^verbatim>\<open>int(t)\<close> and \<^verbatim>\<open>int(round(t * 1000))\<close>.\<close>

record datetime =
  year :: nat
  month :: nat
  day :: nat
  hour :: nat
  minute :: nat
  second :: nat

record clock_reading =
  seconds :: int
  millis :: int

text \<open>
  What the handler calls and does not define: the builders of the DataHub SDK
  (\<^verbatim>\<open>datahub.emitter.mce_builder\<close>), the REST emitter, the clock, and the built-ins of
  the language whose results depend on text or floating-point formats. They are the
  fields of one record, a parameter of every function that uses one.
  \<^item> \<open>make_dataset_urn_with_platform_instance platform name platform_instance env\<close> and
    \<open>make_schema_field_urn parent_urn field_path\<close> may raise;
  \<^item> \<open>pre_json_transform\<close> and \<open>datahub_guid\<close> are the SDK's functions of these
    names, applied one after the other to the dict that names an assertion;
  \<^item> \<open>DatahubRestEmitter self\<close> is the exception the constructor raises for the
    handler's connection settings, if any;
  \<^item> \<open>emit_failure calls mcp\<close> is the exception \<^verbatim>\<open>emit_mcp(mcp)\<close> raises, if any,
    when the calls made before it are \<open>calls\<close>;
  \<^item> \<open>time_time k\<close> is the reading of the clock at its \<open>k\<close>-th call, \<open>utc_now\<close> is
    \<^verbatim>\<open>datetime.now(timezone.utc)\<close>, and \<open>strftime t\<close> is
    \<^verbatim>\<open>t.strftime("%Y-%m-%dT%H:%M:%SZ")\<close>;
  \<^item> \<open>str_lower s\<close> is \<^verbatim>\<open>s.lower()\<close> for a string, with the case tables of
    Unicode;
  \<^item> \<open>int_of_str s\<close> is \<^verbatim>\<open>int(s)\<close> for a string, \<open>None\<close> when it raises ValueError;
    \<open>str_of_float\<close> is \<^verbatim>\<open>str\<close> on a float, and \<open>json_dumps v\<close> is
    \<^verbatim>\<open>json.dumps(v, default=str)\<close>.
\<close>

record library =
  make_dataset_urn_with_platform_instance ::
    "string \<Rightarrow> string \<Rightarrow> string \<Rightarrow> string \<Rightarrow> exn + string"
  make_schema_field_urn :: "string \<Rightarrow> json \<Rightarrow> exn + string"
  make_assertion_urn :: "string \<Rightarrow> string"
  make_data_platform_urn :: "string \<Rightarrow> string"
  pre_json_transform :: "json \<Rightarrow> json"
  datahub_guid :: "json \<Rightarrow> string"
  DatahubRestEmitter :: "DataHubSodaHandler \<Rightarrow> exn option"
  emit_failure ::
    "MetadataChangeProposalWrapper list \<Rightarrow> MetadataChangeProposalWrapper \<Rightarrow> exn option"
  time_time :: "nat \<Rightarrow> clock_reading"
  utc_now :: datetime
  strftime :: "datetime \<Rightarrow> string"
  str_lower :: "string \<Rightarrow> string"
  int_of_str :: "string \<Rightarrow> int option"
  str_of_float :: "pyfloat \<Rightarrow> string"
  json_dumps :: "json \<Rightarrow> string"

datatype log_level = INFO | WARNING | ERROR

text \<open>
  The world a call acts on: every \<^verbatim>\<open>emit_mcp\<close> call made so far (a call that raised
  included, as the last one), every record handed to the logger, and the number of
  clock readings taken.
\<close>

record world =
  emit_calls :: "MetadataChangeProposalWrapper list"
  log_records :: "(log_level \<times> string) list"
  ticks :: nat

definition SODA_PLATFORM_NAME :: string where
  "SODA_PLATFORM_NAME = ''soda''"

text \<open>\<^verbatim>\<open>builder.DEFAULT_ENV\<close>, which the docstring of the constructor gives as PROD.\<close>

definition DEFAULT_ENV :: string where
  "DEFAULT_ENV = ''PROD''"

text \<open>
  \<^verbatim>\<open>DataHubSodaHandler.__init__\<close>. An argument with a default is an option, \<open>None\<close>
  when the caller leaves it out (for \<open>platform_alias'\<close> and the other arguments whose
  default is Python's \<open>None\<close>, leaving out and passing \<open>None\<close> are the same).
\<close>

definition init :: "string \<Rightarrow> string option \<Rightarrow> string option \<Rightarrow> (string \<times> string) list option
    \<Rightarrow> bool option \<Rightarrow> string option \<Rightarrow> pyfloat option \<Rightarrow> int list option \<Rightarrow> int option
    \<Rightarrow> (string \<times> string) list option \<Rightarrow> bool option \<Rightarrow> DataHubSodaHandler" where
  "init server_url' env' platform_alias' platform_instance_map' graceful_exceptions' token'
        timeout_sec' retry_status_codes' retry_max_times' extra_headers'
        convert_urns_to_lowercase' =
     \<lparr> server_url = server_url',
       env = (case env' of None \<Rightarrow> DEFAULT_ENV | Some e \<Rightarrow> e),
       platform_alias = platform_alias',
       platform_instance_map = (case platform_instance_map' of None \<Rightarrow> [] | Some m \<Rightarrow> m),
       graceful_exceptions = (case graceful_exceptions' of None \<Rightarrow> True | Some g \<Rightarrow> g),
       token = token',
       timeout_sec = timeout_sec',
       retry_status_codes = retry_status_codes',
       retry_max_times = retry_max_times',
       extra_headers = extra_headers',
       convert_urns_to_lowercase =
         (case convert_urns_to_lowercase' of None \<Rightarrow> False | Some l \<Rightarrow> l) \<rparr>"

subsection \<open>Module-level helpers\<close>

text \<open>
  The built-in \<^verbatim>\<open>int(value)\<close>: a bool is an int, a finite float is truncated towards
  zero, an infinity raises OverflowError, NaN and an unreadable string raise ValueError
  and any other value raises TypeError.
\<close>

fun py_int :: "library \<Rightarrow> json \<Rightarrow> exn + int" where
  "py_int lib (JBool b) = Inr (if b then 1 else 0)"
| "py_int lib (JInt i) = Inr i"
| "py_int lib (JFloat (Finite s m e)) =
     (let magnitude = (if 0 \<le> e then int m * 2 ^ nat e else int m div 2 ^ nat (- e))
      in Inr (if s then - magnitude else magnitude))"
| "py_int lib (JFloat (Infinity s)) =
     Inl (Exn OverflowError ''cannot convert float infinity to integer'')"
| "py_int lib (JFloat NaN) = Inl (Exn ValueError ''cannot convert float NaN to integer'')"
| "py_int lib (JStr s) =
     (case int_of_str lib s of
        Some i \<Rightarrow> Inr i
      | None \<Rightarrow> Inl (Exn ValueError ''invalid literal for int() with base 10''))"
| "py_int lib v =
     Inl (Exn TypeError (''int() argument must be a string, a bytes-like object or a real number, not ''
       @ [CHR 0x27] @ type_name v @ [CHR 0x27]))"

text \<open>
  \<^verbatim>\<open>parse_int_or_default\<close>: the handler catches ValueError and TypeError only, so the
  OverflowError of an infinite float leaves the function.
\<close>

definition parse_int_or_default :: "library \<Rightarrow> json \<Rightarrow> int option \<Rightarrow> exn + int option" where
  "parse_int_or_default lib v default_value =
     (if v = JNull then Inr default_value
      else case py_int lib v of
             Inr i \<Rightarrow> Inr (Some i)
           | Inl e \<Rightarrow>
               if kind e = ValueError \<or> kind e = TypeError then Inr default_value else Inl e)"

text \<open>
  \<^verbatim>\<open>convert_to_string\<close>. On the values of a parsed JSON document \<^verbatim>\<open>json.dumps\<close>
  with \<^verbatim>\<open>default=str\<close> does not raise, so the \<^verbatim>\<open>except\<close> branch is not reached;
  a \<^verbatim>\<open>Decimal\<close> is not such a value.
\<close>

fun convert_to_string :: "library \<Rightarrow> json \<Rightarrow> string" where
  "convert_to_string lib (JStr s) = s"
| "convert_to_string lib (JBool b) = (if b then ''True'' else ''False'')"
| "convert_to_string lib (JInt i) = str_int i"
| "convert_to_string lib (JFloat f) = str_of_float lib f"
| "convert_to_string lib v = json_dumps lib v"

subsection \<open>Loops and exceptions\<close>

text \<open>
  A \<^verbatim>\<open>for\<close> loop whose body updates its local variables \<open>s\<close> and may raise: the
  first exception ends the loop.
\<close>

fun for_loop :: "('a \<Rightarrow> 's \<Rightarrow> exn + 's) \<Rightarrow> 'a list \<Rightarrow> 's \<Rightarrow> exn + 's" where
  "for_loop body [] s = Inr s"
| "for_loop body (x # xs) s =
     (case body x s of Inl e \<Rightarrow> Inl e | Inr s' \<Rightarrow> for_loop body xs s')"

subsection \<open>Building the dataset URN\<close>

definition platform_map :: "(string \<times> string) list" where
  "platform_map =
     [(''postgres'', ''postgres''), (''snowflake'', ''snowflake''), (''bigquery'', ''bigquery''),
      (''redshift'', ''redshift''), (''mysql'', ''mysql''), (''mssql'', ''mssql''),
      (''oracle'', ''oracle''), (''databricks'', ''databricks''), (''spark'', ''spark'')]"

text \<open>
  \<^verbatim>\<open>_build_dataset_urn\<close>, with the records it hands to the logger. The four name
  arguments are strings, as the signature declares them.
\<close>

definition build_dataset_urn ::
  "library \<Rightarrow> DataHubSodaHandler \<Rightarrow> string \<Rightarrow> string \<Rightarrow> string \<Rightarrow> string \<Rightarrow> string option
     \<Rightarrow> string option \<times> (log_level \<times> string) list" where
  "build_dataset_urn lib self data_source_name database_name schema_name table_name
       platform_instance =
     (let platform =
            (case platform_alias self of
               Some a \<Rightarrow> if a \<noteq> [] then Some a else None
             | None \<Rightarrow> None);
          platform =
            (case platform of
               Some a \<Rightarrow> a
             | None \<Rightarrow>
                 (case map_of platform_map (str_lower lib data_source_name) of
                    Some p \<Rightarrow> p
                  | None \<Rightarrow> str_lower lib data_source_name));
          dataset_name =
            (if database_name \<noteq> [] \<and> schema_name \<noteq> []
             then database_name @ ''.'' @ schema_name @ ''.'' @ table_name
             else if schema_name \<noteq> [] then schema_name @ ''.'' @ table_name
             else table_name);
          dataset_name =
            (if convert_urns_to_lowercase self then str_lower lib dataset_name
             else dataset_name)
      in case make_dataset_urn_with_platform_instance lib platform dataset_name
                (case platform_instance of Some i \<Rightarrow> i | None \<Rightarrow> [])
                (env self) of
           Inr urn \<Rightarrow> (Some urn, [])
         | Inl e \<Rightarrow> (None, [(WARNING, ''Failed to build dataset URN: '' @ str_exn e)]))"

subsection \<open>Converting a check\<close>

text \<open>
  The \<^verbatim>\<open>if\<close>/\<^verbatim>\<open>elif\<close> chain of \<^verbatim>\<open>_build_assertion_info\<close> on the lower-cased
  check type; \<open>has_fields\<close> is the truth value of \<^verbatim>\<open>assertion_fields\<close>.
\<close>

definition classify ::
  "string \<Rightarrow> bool
     \<Rightarrow> DatasetAssertionScope \<times> AssertionStdOperator \<times> AssertionStdAggregation" where
  "classify check_lower has_fields =
     (if str_contains ''null'' check_lower \<or> str_contains ''missing'' check_lower
      then (if has_fields then DATASET_COLUMN else DATASET_ROWS, NOT_NULL, IDENTITY)
      else if str_contains ''unique'' check_lower
      then (if has_fields then DATASET_COLUMN else DATASET_ROWS, OPERATOR_NATIVE, UNIQUE_COUNT)
      else if str_contains ''row_count'' check_lower \<or> str_contains ''count'' check_lower
      then (DATASET_ROWS, OPERATOR_NATIVE, ROW_COUNT)
      else if str_contains ''schema'' check_lower
      then (DATASET_SCHEMA, OPERATOR_NATIVE, COLUMNS)
      else if has_fields
      then (DATASET_COLUMN, OPERATOR_NATIVE, AGGREGATION_NATIVE)
      else (DATASET_ROWS, OPERATOR_NATIVE, AGGREGATION_NATIVE))"

text \<open>Truth value of an optional list: \<open>None\<close> and the empty list are false.\<close>

fun list_truthy :: "'a list option \<Rightarrow> bool" where
  "list_truthy None = False"
| "list_truthy (Some xs) = (xs \<noteq> [])"

text \<open>
  \<^verbatim>\<open>_build_assertion_info\<close>. The check type, the definition and the check name come
  from the check's dict and may be any value; \<^verbatim>\<open>check_type.lower()\<close> raises on one
  that is not a string.
\<close>

definition build_assertion_info ::
  "json \<Rightarrow> json \<Rightarrow> string \<Rightarrow> string list option \<Rightarrow> json \<Rightarrow> exn + AssertionInfo" where
  "build_assertion_info check_type defn dataset_urn assertion_fields check_name =
     (case lower_method check_type of
        Inl e \<Rightarrow> Inl e
      | Inr check_lower \<Rightarrow>
          (case classify check_lower (list_truthy assertion_fields) of
             (scope', operator', aggregation') \<Rightarrow>
               Inr \<lparr> assertionType = DATASET,
                     datasetAssertion =
                       \<lparr> dataset = dataset_urn,
                         datasetFields = assertion_fields,
                         operator = operator',
                         aggregation = aggregation',
                         nativeType = check_type,
                         nativeParameters = [(''definition'', defn)],
                         scope = scope' \<rparr>,
                     customProperties =
                       [(''check_name'', check_name), (''soda_check_type'', check_type)] \<rparr>))"

text \<open>The four local variables the metrics loop assigns.\<close>

record metric_vars =
  row_count :: "int option"
  missing_count :: "int option"
  unexpected_count :: "int option"
  actual_agg_value :: "json option"

text \<open>\<^verbatim>\<open>isinstance(v, (int, float))\<close>; a bool is an int.\<close>

fun is_int_or_float :: "json \<Rightarrow> bool" where
  "is_int_or_float (JBool b) = True"
| "is_int_or_float (JInt i) = True"
| "is_int_or_float (JFloat f) = True"
| "is_int_or_float v = False"

definition agg_metric_ids :: "string list" where
  "agg_metric_ids = [''min'', ''max'', ''avg'', ''sum'', ''count'']"

text \<open>The body of the loop over \<^verbatim>\<open>metrics\<close> (lines 335 to 345).\<close>

definition metric_step :: "library \<Rightarrow> json \<Rightarrow> metric_vars \<Rightarrow> exn + metric_vars" where
  "metric_step lib metric vars =
     (case py_get metric ''id'' (JStr []) of
        Inl e \<Rightarrow> Inl e
      | Inr metric_id \<Rightarrow>
     (case py_get metric ''value'' JNull of
        Inl e \<Rightarrow> Inl e
      | Inr metric_value \<Rightarrow>
          if metric_id = JStr ''row_count''
          then (case parse_int_or_default lib metric_value None of
                  Inl e \<Rightarrow> Inl e
                | Inr n \<Rightarrow> Inr (vars\<lparr>row_count := n\<rparr>))
          else if metric_id = JStr ''missing_count''
          then (case parse_int_or_default lib metric_value None of
                  Inl e \<Rightarrow> Inl e
                | Inr n \<Rightarrow> Inr (vars\<lparr>missing_count := n\<rparr>))
          else if metric_id = JStr ''unexpected_count''
          then (case parse_int_or_default lib metric_value None of
                  Inl e \<Rightarrow> Inl e
                | Inr n \<Rightarrow> Inr (vars\<lparr>unexpected_count := n\<rparr>))
          else if metric_id \<in> set (map JStr agg_metric_ids)
          then (if is_int_or_float metric_value
                then Inr (vars\<lparr>actual_agg_value := Some metric_value\<rparr>)
                else Inr vars)
          else Inr vars))"

definition no_metrics :: metric_vars where
  "no_metrics =
     \<lparr> row_count = None, missing_count = None, unexpected_count = None,
       actual_agg_value = None \<rparr>"

text \<open>The dict whose hash names the assertion (lines 357 to 364).\<close>

definition guid_dict :: "json \<Rightarrow> json \<Rightarrow> string \<Rightarrow> string list option \<Rightarrow> json \<Rightarrow> json" where
  "guid_dict check_type defn dataset_urn assertion_fields check_name =
     JDict [(''platform'', JStr SODA_PLATFORM_NAME),
            (''nativeType'', check_type),
            (''nativeParameters'', JDict [(''definition'', defn)]),
            (''dataset'', JStr dataset_urn),
            (''fields'', case assertion_fields of None \<Rightarrow> JNull | Some fs \<Rightarrow> JList (map JStr fs)),
            (''checkName'', check_name)]"

text \<open>The outcome strings that count as a success (line 321).\<close>

definition success_outcomes :: "string list" where
  "success_outcomes = [''pass'', ''passed'', ''success'']"

definition native_result_excluded :: "string list" where
  "native_result_excluded = [''name'', ''type'', ''definition'', ''outcome'']"

text \<open>
  The field URNs of the assertion (lines 348 to 352): none unless the column is true
  in a condition, so an absent, null or empty column gives \<open>None\<close>.
\<close>

definition assertion_fields_of :: "library \<Rightarrow> string \<Rightarrow> json \<Rightarrow> exn + string list option" where
  "assertion_fields_of lib dataset_urn column_name =
     (if truthy column_name
      then (case make_schema_field_urn lib dataset_urn column_name of
              Inl e \<Rightarrow> Inl e
            | Inr field_urn \<Rightarrow> Inr (Some [field_urn]))
      else Inr None)"

text \<open>
  The batch spec and the run event (lines 379 to 410), from the local variables
  assigned before them. Nothing in these lines raises on the values of a parsed JSON
  document.
\<close>

definition run_event ::
  "library \<Rightarrow> pydict \<Rightarrow> string \<Rightarrow> string \<Rightarrow> datetime \<Rightarrow> clock_reading
     \<Rightarrow> AssertionResultType \<Rightarrow> metric_vars \<Rightarrow> string \<Rightarrow> AssertionRunEvent" where
  "run_event lib check dataset_urn scan_id scan_timestamp now result_type vars assertion_urn =
     (let check_name = dict_get check ''name'' (JStr ''unknown_check'');
          check_type = dict_get check ''type'' (JStr ''unknown'');
          defn = dict_get check ''definition'' (JStr []);
          batch_spec =
            \<lparr> nativeBatchId = scan_id,
              query = (if truthy defn then defn else JStr []),
              batchCustomProperties =
                [(''check_name'', check_name), (''check_type'', check_type),
                 (''soda_scan_id'', JStr scan_id)] \<rparr>
      in \<lparr> timestampMillis = millis now,
           assertionUrn = assertion_urn,
           asserteeUrn = dataset_urn,
           runId = strftime lib scan_timestamp,
           result =
             \<lparr> resultType = result_type,
               rowCount = row_count vars,
               missingCount = missing_count vars,
               unexpectedCount = unexpected_count vars,
               actualAggValue = actual_agg_value vars,
               nativeResults =
                 map (\<lambda>kv. (fst kv, convert_to_string lib (snd kv)))
                   (filter (\<lambda>kv. fst kv \<notin> set native_result_excluded \<and> snd kv \<noteq> JNull)
                      check) \<rparr>,
           batchSpec = batch_spec,
           status = COMPLETE \<rparr>)"

text \<open>
  The \<^verbatim>\<open>try\<close> block of \<^verbatim>\<open>_convert_check_to_assertion\<close> (lines 313 to 412). The
  clock is read once, for \<^verbatim>\<open>timestampMillis\<close>, after every statement that can
  raise; \<open>now\<close> is that reading.
\<close>

definition convert_check_try ::
  "library \<Rightarrow> pydict \<Rightarrow> string \<Rightarrow> string \<Rightarrow> datetime \<Rightarrow> clock_reading
     \<Rightarrow> exn + AssertionInfo \<times> AssertionRunEvent" where
  "convert_check_try lib check dataset_urn scan_id scan_timestamp now =
     (let check_name = dict_get check ''name'' (JStr ''unknown_check'');
          check_type = dict_get check ''type'' (JStr ''unknown'');
          defn = dict_get check ''definition'' (JStr []);
          outcome = dict_get check ''outcome'' (JStr ''unknown'');
          metrics = dict_get check ''metrics'' (JList []);
          column_name = dict_get check ''column'' JNull
      in
      case lower_method outcome of
        Inl e \<Rightarrow> Inl e
      | Inr outcome_lower \<Rightarrow>
     (let success = (outcome_lower \<in> set success_outcomes);
          result_type = (if success then SUCCESS else FAILURE)
      in
      case py_iter metrics of
        Inl e \<Rightarrow> Inl e
      | Inr metric_list \<Rightarrow>
     (case for_loop (metric_step lib) metric_list no_metrics of
        Inl e \<Rightarrow> Inl e
      | Inr vars \<Rightarrow>
     (case assertion_fields_of lib dataset_urn column_name of
        Inl e \<Rightarrow> Inl e
      | Inr assertion_fields \<Rightarrow>
     (let assertion_urn =
            make_assertion_urn lib
              (datahub_guid lib
                 (pre_json_transform lib
                    (guid_dict check_type defn dataset_urn assertion_fields check_name)))
      in
      case build_assertion_info check_type defn dataset_urn assertion_fields check_name of
        Inl e \<Rightarrow> Inl e
      | Inr assertion_info \<Rightarrow>
          Inr (assertion_info,
               run_event lib check dataset_urn scan_id scan_timestamp now result_type vars
                 assertion_urn))))))"

text \<open>
  \<^verbatim>\<open>_convert_check_to_assertion\<close>: the \<^verbatim>\<open>try\<close> block under its
  \<^verbatim>\<open>except Exception\<close> handler, which logs a warning and returns \<open>(None, None)\<close>.
\<close>

definition convert_check_to_assertion ::
  "library \<Rightarrow> pydict \<Rightarrow> string \<Rightarrow> string \<Rightarrow> datetime \<Rightarrow> world
     \<Rightarrow> (exn + AssertionInfo option \<times> AssertionRunEvent option) \<times> world" where
  "convert_check_to_assertion lib check dataset_urn scan_id scan_timestamp w =
     (case convert_check_try lib check dataset_urn scan_id scan_timestamp
             (time_time lib (ticks w)) of
        Inr (assertion_info, assertion_result) \<Rightarrow>
          (Inr (Some assertion_info, Some assertion_result), w\<lparr>ticks := Suc (ticks w)\<rparr>)
      | Inl e \<Rightarrow>
          (Inr (None, None),
           w\<lparr>log_records := log_records w
                @ [(WARNING, ''Failed to convert check to assertion: '' @ str_exn e)]\<rparr>))"

subsection \<open>Processing a scan result\<close>

text \<open>
  The scan result in the shape the handler reads it: a key that is absent is \<open>None\<close>,
  an absent list of checks or tables is the empty list. A check is a dict of arbitrary
  values; the names of a table and of the scan are strings.
\<close>

record TableInfo =
  tableName :: "string option"
  schemaName :: "string option"
  databaseName :: "string option"

record ScanResult =
  scanId :: "string option"
  dataSourceName :: "string option"
  checks :: "pydict list"
  tables :: "TableInfo list"

definition logger :: "log_level \<Rightarrow> string \<Rightarrow> world \<Rightarrow> world" where
  "logger level msg w = w\<lparr>log_records := log_records w @ [(level, msg)]\<rparr>"

text \<open>\<^verbatim>\<open>emitter.emit_mcp(mcp)\<close>: the call is recorded, then it returns or raises.\<close>

definition emit_mcp ::
  "library \<Rightarrow> MetadataChangeProposalWrapper \<Rightarrow> world \<Rightarrow> (exn + unit) \<times> world" where
  "emit_mcp lib mcp w =
     (case emit_failure lib (emit_calls w) mcp of
        None \<Rightarrow> (Inr (), w\<lparr>emit_calls := emit_calls w @ [mcp]\<rparr>)
      | Some e \<Rightarrow> (Inl e, w\<lparr>emit_calls := emit_calls w @ [mcp]\<rparr>))"

text \<open>A \<^verbatim>\<open>for\<close> loop whose body also acts on the world; the world at the moment an
  exception is raised is kept.\<close>

fun for_loop_io ::
  "('a \<Rightarrow> 's \<Rightarrow> world \<Rightarrow> (exn + 's) \<times> world) \<Rightarrow> 'a list \<Rightarrow> 's \<Rightarrow> world
     \<Rightarrow> (exn + 's) \<times> world" where
  "for_loop_io body [] s w = (Inr s, w)"
| "for_loop_io body (x # xs) s w =
     (case body x s w of
        (Inl e, w') \<Rightarrow> (Inl e, w')
      | (Inr s', w') \<Rightarrow> for_loop_io body xs s' w')"

text \<open>The three proposals emitted for one converted check (lines 192 to 214).\<close>

definition assertion_info_mcp ::
  "AssertionInfo \<Rightarrow> AssertionRunEvent \<Rightarrow> MetadataChangeProposalWrapper" where
  "assertion_info_mcp assertion_info assertion_result =
     \<lparr> entityUrn = assertionUrn assertion_result, aspect = InfoAspect assertion_info \<rparr>"

definition assertion_platform_mcp ::
  "library \<Rightarrow> AssertionRunEvent \<Rightarrow> MetadataChangeProposalWrapper" where
  "assertion_platform_mcp lib assertion_result =
     \<lparr> entityUrn = assertionUrn assertion_result,
       aspect = PlatformAspect \<lparr> platform = make_data_platform_urn lib SODA_PLATFORM_NAME \<rparr> \<rparr>"

definition assertion_result_mcp :: "AssertionRunEvent \<Rightarrow> MetadataChangeProposalWrapper" where
  "assertion_result_mcp assertion_result =
     \<lparr> entityUrn = assertionUrn assertion_result, aspect = RunAspect assertion_result \<rparr>"

text \<open>
  The body of the \<^verbatim>\<open>if\<close> of line 190: the three emits in their order, then the
  increment of the counter \<^verbatim>\<open>assertions_sent\<close>. An emit that raises ends it.
\<close>

definition emit_three ::
  "library \<Rightarrow> AssertionInfo \<Rightarrow> AssertionRunEvent \<Rightarrow> nat \<Rightarrow> world \<Rightarrow> (exn + nat) \<times> world" where
  "emit_three lib assertion_info assertion_result assertions_sent w1 =
     (case emit_mcp lib (assertion_info_mcp assertion_info assertion_result) w1 of
        (Inl e, w2) \<Rightarrow> (Inl e, w2)
      | (Inr u, w2) \<Rightarrow>
     (case emit_mcp lib (assertion_platform_mcp lib assertion_result) w2 of
        (Inl e, w3) \<Rightarrow> (Inl e, w3)
      | (Inr u, w3) \<Rightarrow>
     (case emit_mcp lib (assertion_result_mcp assertion_result) w3 of
        (Inl e, w4) \<Rightarrow> (Inl e, w4)
      | (Inr u, w4) \<Rightarrow> (Inr (assertions_sent + 1), w4))))"

text \<open>
  The body of the loop over \<^verbatim>\<open>table_checks\<close> (lines 183 to 216); its local variable
  is the counter \<^verbatim>\<open>assertions_sent\<close>.
\<close>

definition check_step ::
  "library \<Rightarrow> string \<Rightarrow> string \<Rightarrow> datetime \<Rightarrow> pydict \<Rightarrow> nat \<Rightarrow> world
     \<Rightarrow> (exn + nat) \<times> world" where
  "check_step lib dataset_urn scan_id scan_timestamp check assertions_sent w =
     (case convert_check_to_assertion lib check dataset_urn scan_id scan_timestamp w of
        (Inl e, w1) \<Rightarrow> (Inl e, w1)
      | (Inr (Some assertion_info, Some assertion_result), w1) \<Rightarrow>
          emit_three lib assertion_info assertion_result assertions_sent w1
      | (Inr other, w1) \<Rightarrow> (Inr assertions_sent, w1))"

text \<open>The join of a check with a table (lines 178 and 179): \<^verbatim>\<open>==\<close> of the check's
  value with a string holds for that very string only.\<close>

definition check_matches :: "string \<Rightarrow> string \<Rightarrow> pydict \<Rightarrow> bool" where
  "check_matches table_name schema_name c =
     (dict_get c ''table'' JNull = JStr table_name
      \<and> dict_get c ''schema'' JNull = JStr schema_name)"

text \<open>The body of the loop over \<^verbatim>\<open>tables\<close> (lines 148 to 216).\<close>

definition table_step ::
  "library \<Rightarrow> DataHubSodaHandler \<Rightarrow> string \<Rightarrow> pydict list \<Rightarrow> string \<Rightarrow> datetime
     \<Rightarrow> TableInfo \<Rightarrow> nat \<Rightarrow> world \<Rightarrow> (exn + nat) \<times> world" where
  "table_step lib self data_source_name all_checks scan_id scan_timestamp table_info
       assertions_sent w =
     (let table_name = (case tableName table_info of Some s \<Rightarrow> s | None \<Rightarrow> []);
          schema_name = (case schemaName table_info of Some s \<Rightarrow> s | None \<Rightarrow> []);
          database_name = (case databaseName table_info of Some s \<Rightarrow> s | None \<Rightarrow> []);
          platform_instance = map_of (platform_instance_map self) data_source_name
      in
      case build_dataset_urn lib self data_source_name database_name schema_name table_name
             platform_instance of
        (built, logged) \<Rightarrow>
     (let w1 = w\<lparr>log_records := log_records w @ logged\<rparr>;
          dataset_urn = (case built of Some u \<Rightarrow> u | None \<Rightarrow> [])
      in
      if dataset_urn = []
      then (Inr assertions_sent,
            logger WARNING
              (''Could not build dataset URN for '' @ schema_name @ ''.'' @ table_name) w1)
      else
        (let w2 = logger INFO (''Processing dataset: '' @ dataset_urn) w1;
             table_checks = filter (check_matches table_name schema_name) all_checks
         in for_loop_io (check_step lib dataset_urn scan_id scan_timestamp) table_checks
              assertions_sent w2)))"

text \<open>
  The \<^verbatim>\<open>try\<close> block of \<^verbatim>\<open>process_scan_result\<close> (lines 123 to 223). The default of
  \<^verbatim>\<open>scan_result.get("scanId", ...)\<close> is evaluated whether or not the key is present,
  so the clock is read once in either case.
\<close>

definition process_scan_try ::
  "library \<Rightarrow> DataHubSodaHandler \<Rightarrow> ScanResult \<Rightarrow> datetime \<Rightarrow> world
     \<Rightarrow> (exn + pydict) \<times> world" where
  "process_scan_try lib self scan_result scan_timestamp w =
     (case DatahubRestEmitter lib self of
        Some e \<Rightarrow> (Inl e, w)
      | None \<Rightarrow>
     (let now = time_time lib (ticks w);
          w1 = w\<lparr>ticks := Suc (ticks w)\<rparr>;
          scan_id =
            (case scanId scan_result of
               Some s \<Rightarrow> s
             | None \<Rightarrow> ''scan_'' @ str_int (seconds now));
          data_source_name =
            (case dataSourceName scan_result of Some s \<Rightarrow> s | None \<Rightarrow> ''unknown'');
          w2 = logger INFO
                 (''Processing Soda scan '' @ scan_id @ '' with ''
                    @ str_nat (length (checks scan_result)) @ '' checks'') w1
      in
      case for_loop_io
             (table_step lib self data_source_name (checks scan_result) scan_id scan_timestamp)
             (tables scan_result) 0 w2 of
        (Inl e, w3) \<Rightarrow> (Inl e, w3)
      | (Inr assertions_sent, w3) \<Rightarrow>
          (Inr [(''status'', JStr ''success''),
                (''assertions_sent'', JInt (int assertions_sent)),
                (''scan_id'', JStr scan_id)],
           logger INFO
             (''Successfully sent '' @ str_nat assertions_sent @ '' assertions to DataHub'')
             w3)))"

text \<open>
  \<^verbatim>\<open>process_scan_result\<close>: the \<^verbatim>\<open>try\<close> block under the handler of lines 225 to
  231, which logs the error and either returns the error dict or raises again.
\<close>

definition process_scan_result ::
  "library \<Rightarrow> DataHubSodaHandler \<Rightarrow> ScanResult \<Rightarrow> datetime option \<Rightarrow> world
     \<Rightarrow> (exn + pydict) \<times> world" where
  "process_scan_result lib self scan_result scan_timestamp w =
     (let scan_timestamp' = (case scan_timestamp of None \<Rightarrow> utc_now lib | Some t \<Rightarrow> t)
      in
      case process_scan_try lib self scan_result scan_timestamp' w of
        (Inr d, w1) \<Rightarrow> (Inr d, w1)
      | (Inl e, w1) \<Rightarrow>
          (let error_msg = ''Failed to process Soda scan result: '' @ str_exn e;
               w2 = logger ERROR error_msg w1
           in if graceful_exceptions self
              then (Inr [(''status'', JStr ''error''), (''error'', JStr error_msg)], w2)
              else (Inl e, w2)))"

subsection \<open>Validating governance policies\<close>

definition policy_detail :: "pydict \<Rightarrow> json" where
  "policy_detail policy =
     JDict [(''policy'', dict_get policy ''name'' (JStr ''unknown'')),
            (''type'', dict_get policy ''type'' (JStr ''unknown'')),
            (''status'', JStr ''validated'')]"

text \<open>
  \<^verbatim>\<open>validate_governance_policies\<close>: the returned dict and the record handed to the
  logger. The loop appends one entry to \<^verbatim>\<open>details\<close> for each policy.
\<close>

definition validate_governance_policies ::
  "string \<Rightarrow> pydict list \<Rightarrow> ScanResult option \<Rightarrow> pydict \<times> (log_level \<times> string) list" where
  "validate_governance_policies dataset_urn policies scan_result =
     ([(''dataset_urn'', JStr dataset_urn),
       (''policies_validated'', JInt (int (length policies))),
       (''compliant'', JInt 0),
       (''non_compliant'', JInt 0),
       (''details'',
          JList (foldl (\<lambda>details policy. details @ [policy_detail policy]) [] policies))],
      [(INFO, ''Validating '' @ str_nat (length policies) @ '' governance policies for ''
          @ dataset_urn)])"

subsection \<open>The specification's vocabulary\<close>

text \<open>
  What a call of \<^verbatim>\<open>_convert_check_to_assertion\<close> returned: the definition and the
  outcome, when both are there.
\<close>

definition converted ::
  "(exn + AssertionInfo option \<times> AssertionRunEvent option) \<times> world
     \<Rightarrow> (AssertionInfo \<times> AssertionRunEvent) option" where
  "converted r =
     (case fst r of
        Inr (Some assertion_info, Some assertion_result) \<Rightarrow>
          Some (assertion_info, assertion_result)
      | Inr other \<Rightarrow> None
      | Inl e \<Rightarrow> None)"

text \<open>
  The value an aggregation metric offers: the \<^verbatim>\<open>value\<close> of a metric whose
  \<^verbatim>\<open>id\<close> is one of min, max, avg, sum and count and whose value is a number.
\<close>

definition agg_value :: "json \<Rightarrow> json option" where
  "agg_value metric =
     (case metric of
        JDict d \<Rightarrow>
          if dict_get d ''id'' (JStr []) \<in> set (map JStr agg_metric_ids)
             \<and> is_int_or_float (dict_get d ''value'' JNull)
          then Some (dict_get d ''value'' JNull)
          else None
      | other \<Rightarrow> None)"

definition agg_values :: "json list \<Rightarrow> json list" where
  "agg_values metrics = List.map_filter agg_value metrics"

definition first_option :: "'a list \<Rightarrow> 'a option" where
  "first_option xs = (case xs of [] \<Rightarrow> None | x # rest \<Rightarrow> Some x)"

definition last_option :: "'a list \<Rightarrow> 'a option" where
  "last_option xs = (case rev xs of [] \<Rightarrow> None | x # rest \<Rightarrow> Some x)"

text \<open>
  The dataset name in the specification's words: \<open>database.schema.table\<close> when database
  and schema are both non-empty, \<open>schema.table\<close> when only the schema is non-empty,
  else the table alone.
\<close>

definition spec_dataset_name :: "string \<Rightarrow> string \<Rightarrow> string \<Rightarrow> string" where
  "spec_dataset_name database_name schema_name table_name =
     (if database_name \<noteq> [] \<and> schema_name \<noteq> []
      then database_name @ ''.'' @ schema_name @ ''.'' @ table_name
      else if database_name = [] \<and> schema_name \<noteq> []
      then schema_name @ ''.'' @ table_name
      else table_name)"

text \<open>
  The platform in the specification's words: the alias if one is provided, else the
  data-source name looked up case-insensitively in the table of known platforms, an
  unknown name passing through lower-cased.
\<close>

definition spec_platform :: "library \<Rightarrow> string option \<Rightarrow> string \<Rightarrow> string" where
  "spec_platform lib alias data_source_name =
     (case alias of
        Some a \<Rightarrow>
          if a \<noteq> [] then a
          else (case map_of platform_map (str_lower lib data_source_name) of
                  Some known \<Rightarrow> known
                | None \<Rightarrow> str_lower lib data_source_name)
      | None \<Rightarrow>
          (case map_of platform_map (str_lower lib data_source_name) of
             Some known \<Rightarrow> known
           | None \<Rightarrow> str_lower lib data_source_name))"






text \<open>Two worlds with the same emitter calls and the same clock: they may differ in
  what was logged.\<close>

definition same_effects :: "world \<Rightarrow> world \<Rightarrow> bool" where
  "same_effects w w' \<longleftrightarrow> emit_calls w = emit_calls w' \<and> ticks w = ticks w'"

text \<open>The three proposals of one converted check, in the order they are emitted.\<close>

definition emitted_triple ::
  "library \<Rightarrow> AssertionInfo \<times> AssertionRunEvent \<Rightarrow> MetadataChangeProposalWrapper list" where
  "emitted_triple lib p =
     [assertion_info_mcp (fst p) (snd p), assertion_platform_mcp lib (snd p),
      assertion_result_mcp (snd p)]"

text \<open>
  The dataset URN under which the checks of a table are processed: none when the URN
  is not built or is empty, and the table is skipped (lines 158 to 170).
\<close>

definition table_urn :: "library \<Rightarrow> DataHubSodaHandler \<Rightarrow> string \<Rightarrow> TableInfo \<Rightarrow> string option" where
  "table_urn lib self data_source_name table_info =
     (case fst (build_dataset_urn lib self data_source_name
                  (case databaseName table_info of Some s \<Rightarrow> s | None \<Rightarrow> [])
                  (case schemaName table_info of Some s \<Rightarrow> s | None \<Rightarrow> [])
                  (case tableName table_info of Some s \<Rightarrow> s | None \<Rightarrow> [])
                  (map_of (platform_instance_map self) data_source_name)) of
        Some urn \<Rightarrow> if urn = [] then None else Some urn
      | None \<Rightarrow> None)"









subsection \<open>A library and a scan result for the examples\<close>

text \<open>
  URN builders that format their arguments as the SDK does, an emitter that never
  fails, a clock that advances by one second at each reading, a hash that is only the
  check's name, and the fold of A to Z for the lower-casing, which is
  \<^verbatim>\<open>str.lower()\<close> on the ASCII names of the examples; the scan result is the one of
  the unit tests.
\<close>

text \<open>
  Modelled from the spec: \<^verbatim>\<open>pre_json_transform\<close> of the DataHub SDK, which the
  sources of the plugin call and do not contain. Section 4.3 of the specification has a
  component that is null omitted from the canonical form that is hashed; the transform
  leaves out every entry of a dict whose value is null, at every depth, as the SDK's
  does.
\<close>

primrec drop_none :: "json \<Rightarrow> json" where
  "drop_none JNull = JNull"
| "drop_none (JBool b) = JBool b"
| "drop_none (JInt i) = JInt i"
| "drop_none (JFloat f) = JFloat f"
| "drop_none (JStr s) = JStr s"
| "drop_none (JList xs) = JList (map drop_none xs)"
| "drop_none (JDict d) =
     JDict (filter (\<lambda>kv. snd kv \<noteq> JNull) (map (map_prod id drop_none) d))"

definition sample_guid :: "json \<Rightarrow> string" where
  "sample_guid obj =
     (case obj of
        JDict d \<Rightarrow> (case dict_get d ''checkName'' JNull of JStr n \<Rightarrow> n | other \<Rightarrow> ''guid'')
      | other \<Rightarrow> ''guid'')"

definition sample_lib :: library where
  "sample_lib =
     \<lparr> make_dataset_urn_with_platform_instance =
         (\<lambda>platform' name platform_instance env'.
            if name = [] then Inl (Exn LibraryError ''DatasetUrn name cannot be empty'')
            else Inr (''urn:li:dataset:(urn:li:dataPlatform:'' @ platform' @ '',''
                      @ (if platform_instance = [] then name
                         else platform_instance @ ''.'' @ name)
                      @ '','' @ env' @ '')'')),
       make_schema_field_urn =
         (\<lambda>parent_urn field_path.
            if starts_with ''urn:li:'' parent_urn
            then Inr (''urn:li:schemaField:('' @ parent_urn @ '',''
                      @ (case field_path of JStr f \<Rightarrow> f | other \<Rightarrow> ''field'') @ '')'')
            else Inl (Exn AssertionError ''Schema field's parent must be an urn'')),
       make_assertion_urn = (\<lambda>guid. ''urn:li:assertion:'' @ guid),
       make_data_platform_urn = (\<lambda>name. ''urn:li:dataPlatform:'' @ name),
       pre_json_transform = drop_none,
       datahub_guid = sample_guid,
       DatahubRestEmitter = (\<lambda>self. None),
       emit_failure = (\<lambda>calls mcp. None),
       time_time = (\<lambda>k. \<lparr> seconds = 1700000000 + int k, millis = 1700000000000 + 1000 * int k \<rparr>),
       utc_now = \<lparr> year = 2024, month = 1, day = 2, hour = 3, minute = 4, second = 5 \<rparr>,
       strftime = (\<lambda>t. ''2024-01-02T03:04:05Z''),
       str_lower = py_lower,
       int_of_str = (\<lambda>s. None),
       str_of_float = (\<lambda>f. ''0.0''),
       json_dumps = (\<lambda>v. ''[]'') \<rparr>"

text \<open>The same library with an emitter whose \<open>n\<close>-th call (counted from 0) raises.\<close>

definition failing_lib :: "nat \<Rightarrow> library" where
  "failing_lib n =
     sample_lib\<lparr> emit_failure :=
       (\<lambda>calls mcp. if length calls = n then Some (Exn LibraryError ''connection refused'')
                     else None) \<rparr>"

text \<open>The same library with a hash that gives different values to different dicts.\<close>

instance pyfloat :: countable
  by countable_datatype

instance json :: countable
  by countable_datatype


definition sample_handler :: DataHubSodaHandler where
  "sample_handler =
     init ''http://localhost:8080'' (Some ''TEST'') None None (Some True) None None None None
       None None"

definition sample_timestamp :: datetime where
  "sample_timestamp = \<lparr> year = 2024, month = 1, day = 2, hour = 3, minute = 4, second = 5 \<rparr>"

definition sample_dataset_urn :: string where
  "sample_dataset_urn = ''urn:li:dataset:(urn:li:dataPlatform:postgres,mydb.public.users,TEST)''"

definition users_id_not_null :: pydict where
  "users_id_not_null =
     [(''name'', JStr ''users_id_not_null''),
      (''type'', JStr ''missing_count''),
      (''definition'', JStr ''SELECT COUNT(*) FROM users WHERE id IS NULL''),
      (''outcome'', JStr ''pass''),
      (''table'', JStr ''users''),
      (''schema'', JStr ''public''),
      (''column'', JStr ''id''),
      (''metrics'',
         JList [JDict [(''id'', JStr ''row_count''), (''value'', JInt 1000)],
                JDict [(''id'', JStr ''missing_count''), (''value'', JInt 0)]])]"

definition users_email_unique :: pydict where
  "users_email_unique =
     [(''name'', JStr ''users_email_unique''),
      (''type'', JStr ''duplicate_count''),
      (''definition'', 
         JStr ''SELECT COUNT(*) FROM (SELECT email, COUNT(*) FROM users GROUP BY email HAVING COUNT(*) > 1)''),
      (''outcome'', JStr ''fail''),
      (''table'', JStr ''users''),
      (''schema'', JStr ''public''),
      (''column'', JStr ''email''),
      (''metrics'',
         JList [JDict [(''id'', JStr ''row_count''), (''value'', JInt 1000)],
                JDict [(''id'', JStr ''unexpected_count''), (''value'', JInt 5)]])]"

definition sample_scan_result :: ScanResult where
  "sample_scan_result =
     \<lparr> scanId = Some ''test_scan_123'',
       dataSourceName = Some ''postgres'',
       checks = [users_id_not_null, users_email_unique],
       tables = [\<lparr> tableName = Some ''users'', schemaName = Some ''public'',
                   databaseName = Some ''mydb'' \<rparr>] \<rparr>"

definition world0 :: world where
  "world0 = \<lparr> emit_calls = [], log_records = [], ticks = 0 \<rparr>"

text \<open>A check that reports two aggregation metrics.\<close>

definition min_max_check :: pydict where
  "min_max_check =
     [(''name'', JStr ''price_range''),
      (''type'', JStr ''range''),
      (''outcome'', JStr ''pass''),
      (''metrics'',
         JList [JDict [(''id'', JStr ''min''), (''value'', JInt 1)],
                JDict [(''id'', JStr ''max''), (''value'', JInt 2)]])]"

text \<open>Checks whose outcome is in capitals, absent, and null.\<close>

definition upper_pass_check :: pydict where
  "upper_pass_check = [(''name'', JStr ''c''), (''outcome'', JStr ''PASSED'')]"

definition no_outcome_check :: pydict where
  "no_outcome_check = [(''name'', JStr ''c'')]"

definition null_outcome_check :: pydict where
  "null_outcome_check = [(''name'', JStr ''c''), (''outcome'', JNull)]"

text \<open>A passing check of a given type on a given column.\<close>

definition unique_check :: "string \<Rightarrow> json \<Rightarrow> pydict" where
  "unique_check check_type column_name =
     [(''name'', JStr ''email_unique''), (''type'', JStr check_type), (''outcome'', JStr ''pass''),
      (''column'', column_name)]"







text \<open>A handler with an alias for the platform, that folds dataset names to lower case.\<close>

definition lowercase_handler :: DataHubSodaHandler where
  "lowercase_handler =
     init ''http://localhost:8080'' (Some ''TEST'') (Some ''MyWarehouse'') None None None None
       None None None (Some True)"

text \<open>The policies of the unit tests.\<close>

definition sample_policies :: "pydict list" where
  "sample_policies =
     [[(''name'', JStr ''Data Quality Policy''), (''type'', JStr ''data_quality'')],
      [(''name'', JStr ''Schema Policy''), (''type'', JStr ''schema'')]]"

text \<open>What a finished loop has added to the calls of the emitter, and to the counter.\<close>

definition triples_added :: "library \<Rightarrow> nat \<Rightarrow> world \<Rightarrow> nat \<Rightarrow> world \<Rightarrow> bool" where
  "triples_added lib n w n' w' \<longleftrightarrow>
     (\<exists>pairs. emit_calls w' = emit_calls w @ concat (map (emitted_triple lib) pairs)
        \<and> n' = n + length pairs)"

text \<open>The handler of the examples in strict mode.\<close>

definition strict_handler :: DataHubSodaHandler where
  "strict_handler =
     init ''http://localhost:8080'' (Some ''TEST'') None None (Some False) None None None None
       None None"




text \<open>
  Checks that make a statement of the conversion raise: metrics that are a number, a
  row count that is an infinite float, and a type that is a number.
\<close>

definition number_metrics_check :: pydict where
  "number_metrics_check = [(''outcome'', JStr ''pass''), (''metrics'', JInt 5)]"

definition infinite_row_count_check :: pydict where
  "infinite_row_count_check =
     [(''outcome'', JStr ''pass''),
      (''metrics'',
         JList [JDict [(''id'', JStr ''row_count''), (''value'', JFloat (Infinity False))]])]"

definition number_type_check :: pydict where
  "number_type_check = [(''type'', JInt 5), (''outcome'', JStr ''pass'')]"

text \<open>The kind of the exception a \<^verbatim>\<open>try\<close> block raised, if it raised.\<close>

definition raised_kind :: "exn + 'a \<Rightarrow> exn_kind option" where
  "raised_kind r = (case r of Inl e \<Rightarrow> Some (kind e) | Inr v \<Rightarrow> None)"






section \<open>Properties\<close>

subsection \<open>Conversion of a check, stage by stage\<close>

lemma converted_iff:
  "converted (convert_check_to_assertion lib check urn sid ts w) = Some (a, r)
   \<longleftrightarrow> convert_check_try lib check urn sid ts (time_time lib (ticks w)) = Inr (a, r)"
  by (auto simp: converted_def convert_check_to_assertion_def split: sum.splits)

lemma run_event_fields:
  "assertionUrn (run_event lib check urn sid ts now rt vars au) = au"
  "resultType (result (run_event lib check urn sid ts now rt vars au)) = rt"
  "rowCount (result (run_event lib check urn sid ts now rt vars au)) = row_count vars"
  "missingCount (result (run_event lib check urn sid ts now rt vars au)) = missing_count vars"
  "unexpectedCount (result (run_event lib check urn sid ts now rt vars au)) = unexpected_count vars"
  "actualAggValue (result (run_event lib check urn sid ts now rt vars au)) = actual_agg_value vars"
  by (simp_all add: run_event_def Let_def)

text \<open>A conversion that succeeds went through every stage of the \<^verbatim>\<open>try\<close> block.\<close>

lemma convert_check_try_Inr:
  assumes "convert_check_try lib check urn sid ts now = Inr (a, r)"
  shows "\<exists>ol ms vars af.
      lower_method (dict_get check ''outcome'' (JStr ''unknown'')) = Inr ol
    \<and> py_iter (dict_get check ''metrics'' (JList [])) = Inr ms
    \<and> for_loop (metric_step lib) ms no_metrics = Inr vars
    \<and> assertion_fields_of lib urn (dict_get check ''column'' JNull) = Inr af
    \<and> build_assertion_info (dict_get check ''type'' (JStr ''unknown''))
         (dict_get check ''definition'' (JStr [])) urn af
         (dict_get check ''name'' (JStr ''unknown_check'')) = Inr a
    \<and> r = run_event lib check urn sid ts now
            (if ol \<in> set success_outcomes then SUCCESS else FAILURE) vars
            (make_assertion_urn lib (datahub_guid lib (pre_json_transform lib
              (guid_dict (dict_get check ''type'' (JStr ''unknown''))
                 (dict_get check ''definition'' (JStr [])) urn af
                 (dict_get check ''name'' (JStr ''unknown_check''))))))"
  using assms
  unfolding convert_check_try_def Let_def
  by (auto split: sum.splits)

subsection \<open>The aggregation value\<close>

lemma metric_step_agg:
  assumes "metric_step lib m vars = Inr vars'"
  shows "actual_agg_value vars' =
           (case agg_value m of None \<Rightarrow> actual_agg_value vars | Some v \<Rightarrow> Some v)"
proof (cases m)
  case (JDict d)
  with assms show ?thesis
    unfolding metric_step_def agg_value_def
    by (auto simp: agg_metric_ids_def split: sum.splits if_splits)
qed (use assms in \<open>simp_all add: metric_step_def\<close>)

lemma last_option_Cons:
  "last_option (x # xs) = (case last_option xs of None \<Rightarrow> Some x | Some y \<Rightarrow> Some y)"
  by (cases xs rule: rev_cases) (simp_all add: last_option_def)

lemma agg_values_Cons:
  "agg_values (m # ms) =
     (case agg_value m of None \<Rightarrow> agg_values ms | Some v \<Rightarrow> v # agg_values ms)"
  by (simp add: agg_values_def split: option.splits)

text \<open>Each metric that offers a value overwrites the variable: the loop keeps the last.\<close>

lemma metrics_loop_agg:
  "for_loop (metric_step lib) ms vars = Inr vars' \<Longrightarrow>
   actual_agg_value vars' =
     (case last_option (agg_values ms) of None \<Rightarrow> actual_agg_value vars | Some v \<Rightarrow> Some v)"
proof (induction ms arbitrary: vars)
  case Nil
  then show ?case by (simp add: agg_values_def last_option_def)
next
  case (Cons m ms)
  from Cons.prems obtain mid where step: "metric_step lib m vars = Inr mid"
    and rest: "for_loop (metric_step lib) ms mid = Inr vars'"
    by (auto split: sum.splits)
  from Cons.IH [OF rest] metric_step_agg [OF step] show ?case
    by (auto simp: agg_values_Cons last_option_Cons split: option.splits)
qed

text \<open>
  C1, as the code has it: when a check is converted, the outcome's \<open>actualAggValue\<close> is
  the value of the LAST metric, in list order, whose id is one of min, max, avg, sum and
  count and whose value is a number (and \<open>None\<close> when there is no such metric): every
  later such metric overwrites the earlier one.
\<close>

theorem C1_last_numeric_metric_wins:
  assumes "converted (convert_check_to_assertion lib check dataset_urn scan_id scan_timestamp w)
             = Some (assertion_info, assertion_result)"
  shows "\<exists>metrics. py_iter (dict_get check ''metrics'' (JList [])) = Inr metrics
           \<and> actualAggValue (result assertion_result) = last_option (agg_values metrics)"
proof -
  from assms have "convert_check_try lib check dataset_urn scan_id scan_timestamp
      (time_time lib (ticks w)) = Inr (assertion_info, assertion_result)"
    by (simp add: converted_iff)
  from convert_check_try_Inr [OF this] obtain ol ms vars au where
    it: "py_iter (dict_get check ''metrics'' (JList [])) = Inr ms"
    and loop: "for_loop (metric_step lib) ms no_metrics = Inr vars"
    and r: "assertion_result = run_event lib check dataset_urn scan_id scan_timestamp
       (time_time lib (ticks w)) (if ol \<in> set success_outcomes then SUCCESS else FAILURE) vars au"
    by blast
  from metrics_loop_agg [OF loop] have "actual_agg_value vars = last_option (agg_values ms)"
    by (simp add: no_metrics_def split: option.splits)
  with it r show ?thesis by (simp add: run_event_fields)
qed

text \<open>
  C1 as stated fails: the check \<open>min_max_check\<close> reports min = 1 and then max = 2; the
  first of the two is 1 and the outcome carries 2.
\<close>

theorem C1_first_metric_counterexample:
  "py_iter (dict_get min_max_check ''metrics'' (JList [])) =
     Inr [JDict [(''id'', JStr ''min''), (''value'', JInt 1)],
          JDict [(''id'', JStr ''max''), (''value'', JInt 2)]]
   \<and> first_option (agg_values [JDict [(''id'', JStr ''min''), (''value'', JInt 1)],
          JDict [(''id'', JStr ''max''), (''value'', JInt 2)]]) = Some (JInt 1)
   \<and> map_option (\<lambda>p. actualAggValue (result (snd p)))
       (converted (convert_check_to_assertion sample_lib min_max_check sample_dataset_urn
          ''scan_1'' sample_timestamp world0)) = Some (Some (JInt 2))"
  by code_simp

lemma min_max_converted:
  "converted (convert_check_to_assertion sample_lib min_max_check sample_dataset_urn
          ''scan_1'' sample_timestamp world0) \<noteq> None"
  by code_simp

theorem C1_last_numeric_metric_wins_witness:
  "map_option (\<lambda>p. actualAggValue (result (snd p)))
       (converted (convert_check_to_assertion sample_lib min_max_check sample_dataset_urn
          ''scan_1'' sample_timestamp world0))
   = Some (last_option (agg_values [JDict [(''id'', JStr ''min''), (''value'', JInt 1)],
          JDict [(''id'', JStr ''max''), (''value'', JInt 2)]]))
   \<and> last_option (agg_values [JDict [(''id'', JStr ''min''), (''value'', JInt 1)],
          JDict [(''id'', JStr ''max''), (''value'', JInt 2)]]) = Some (JInt 2)"
proof -
  obtain a r where c: "converted (convert_check_to_assertion sample_lib min_max_check
      sample_dataset_urn ''scan_1'' sample_timestamp world0) = Some (a, r)"
    using min_max_converted by (cases "converted (convert_check_to_assertion sample_lib
      min_max_check sample_dataset_urn ''scan_1'' sample_timestamp world0)") auto
  have it: "py_iter (dict_get min_max_check ''metrics'' (JList [])) =
     Inr [JDict [(''id'', JStr ''min''), (''value'', JInt 1)],
          JDict [(''id'', JStr ''max''), (''value'', JInt 2)]]"
    by code_simp
  have l: "last_option (agg_values [JDict [(''id'', JStr ''min''), (''value'', JInt 1)],
          JDict [(''id'', JStr ''max''), (''value'', JInt 2)]]) = Some (JInt 2)"
    by code_simp
  from C1_last_numeric_metric_wins [OF c] it c l show ?thesis by simp
qed

subsection \<open>Success and failure\<close>

text \<open>
  C2: when a check is converted, its outcome is a string (the string \<open>unknown\<close> when
  the field is absent), and the result type is SUCCESS if and only if that string,
  lower-cased, is one of pass, passed and success; it is FAILURE otherwise, in particular
  for an absent outcome and for the empty string.
\<close>

theorem C2_success_iff_outcome:
  assumes "converted (convert_check_to_assertion lib check dataset_urn scan_id scan_timestamp w)
             = Some (assertion_info, assertion_result)"
  shows "\<exists>outcome. dict_get check ''outcome'' (JStr ''unknown'') = JStr outcome
           \<and> (resultType (result assertion_result) = SUCCESS
                \<longleftrightarrow> py_lower outcome \<in> set success_outcomes)
           \<and> (resultType (result assertion_result) = FAILURE
                \<longleftrightarrow> py_lower outcome \<notin> set success_outcomes)
           \<and> (map_of check ''outcome'' = None \<longrightarrow> resultType (result assertion_result) = FAILURE)
           \<and> (outcome = [] \<longrightarrow> resultType (result assertion_result) = FAILURE)"
proof -
  from assms have "convert_check_try lib check dataset_urn scan_id scan_timestamp
      (time_time lib (ticks w)) = Inr (assertion_info, assertion_result)"
    by (simp add: converted_iff)
  from convert_check_try_Inr [OF this] obtain ol vars au where
    low: "lower_method (dict_get check ''outcome'' (JStr ''unknown'')) = Inr ol"
    and r: "assertion_result = run_event lib check dataset_urn scan_id scan_timestamp
       (time_time lib (ticks w)) (if ol \<in> set success_outcomes then SUCCESS else FAILURE) vars au"
    by blast
  from low obtain outcome where o: "dict_get check ''outcome'' (JStr ''unknown'') = JStr outcome"
    and ol: "ol = py_lower outcome"
    by (cases "dict_get check ''outcome'' (JStr ''unknown'')") auto
  have rt: "resultType (result assertion_result) =
      (if py_lower outcome \<in> set success_outcomes then SUCCESS else FAILURE)"
    using r ol by (simp add: run_event_fields)
  have absent: "map_of check ''outcome'' = None \<Longrightarrow> py_lower outcome \<notin> set success_outcomes"
  proof -
    assume "map_of check ''outcome'' = None"
    with o have "outcome = ''unknown''" by (simp add: dict_get_def)
    then show ?thesis by (simp add: success_outcomes_def py_lower_def)
  qed
  have empty: "outcome = [] \<Longrightarrow> py_lower outcome \<notin> set success_outcomes"
    by (simp add: success_outcomes_def py_lower_def)
  from o rt absent empty show ?thesis by auto
qed

lemma upper_pass_converted:
  "converted (convert_check_to_assertion sample_lib upper_pass_check sample_dataset_urn
          ''scan_1'' sample_timestamp world0) \<noteq> None"
  by code_simp

theorem C2_success_iff_outcome_witness:
  "map_option (\<lambda>p. resultType (result (snd p)))
     (converted (convert_check_to_assertion sample_lib upper_pass_check sample_dataset_urn
          ''scan_1'' sample_timestamp world0)) = Some SUCCESS
   \<and> dict_get upper_pass_check ''outcome'' (JStr ''unknown'') = JStr ''PASSED''
   \<and> py_lower ''PASSED'' \<in> set success_outcomes"
proof -
  obtain a r where c: "converted (convert_check_to_assertion sample_lib upper_pass_check
      sample_dataset_urn ''scan_1'' sample_timestamp world0) = Some (a, r)"
    using upper_pass_converted by (cases "converted (convert_check_to_assertion sample_lib
      upper_pass_check sample_dataset_urn ''scan_1'' sample_timestamp world0)") auto
  have o: "dict_get upper_pass_check ''outcome'' (JStr ''unknown'') = JStr ''PASSED''"
    by code_simp
  have l: "py_lower ''PASSED'' \<in> set success_outcomes"
    by code_simp
  from C2_success_iff_outcome [OF c] o l c show ?thesis by auto
qed

text \<open>The two checks of the unit tests, and a check with no outcome.\<close>

lemma outcome_examples:
  "map_option (\<lambda>p. resultType (result (snd p)))
     (converted (convert_check_to_assertion sample_lib no_outcome_check sample_dataset_urn
          ''scan_1'' sample_timestamp world0)) = Some FAILURE
   \<and> map_option (\<lambda>p. resultType (result (snd p)))
     (converted (convert_check_to_assertion sample_lib users_id_not_null sample_dataset_urn
          ''scan_1'' sample_timestamp world0)) = Some SUCCESS
   \<and> map_option (\<lambda>p. resultType (result (snd p)))
     (converted (convert_check_to_assertion sample_lib users_email_unique sample_dataset_urn
          ''scan_1'' sample_timestamp world0)) = Some FAILURE"
  by code_simp

subsection \<open>Classification of the check type\<close>

text \<open>\<open>str_contains\<close> is the substring test.\<close>

lemma starts_with_iff: "starts_with sub s \<longleftrightarrow> (\<exists>q. s = sub @ q)"
  by (induction sub s rule: starts_with.induct) auto

lemma str_contains_iff: "str_contains sub s \<longleftrightarrow> (\<exists>p q. s = p @ sub @ q)"
proof (induction s)
  case Nil
  then show ?case by auto
next
  case (Cons c cs)
  show ?case
  proof
    assume "str_contains sub (c # cs)"
    then consider "starts_with sub (c # cs)" | "str_contains sub cs" by auto
    then show "\<exists>p q. c # cs = p @ sub @ q"
    proof cases
      case 1
      then obtain q where "c # cs = sub @ q" by (auto simp: starts_with_iff)
      then have "c # cs = [] @ sub @ q" by simp
      then show ?thesis by blast
    next
      case 2
      with Cons.IH obtain p q where "cs = p @ sub @ q" by blast
      then have "c # cs = (c # p) @ sub @ q" by simp
      then show ?thesis by blast
    qed
  next
    assume "\<exists>p q. c # cs = p @ sub @ q"
    then obtain p q where pq: "c # cs = p @ sub @ q" by blast
    show "str_contains sub (c # cs)"
    proof (cases p)
      case Nil
      with pq have "starts_with sub (c # cs)" by (auto simp: starts_with_iff)
      then show ?thesis by simp
    next
      case (Cons a p')
      with pq have "cs = p' @ sub @ q" by simp
      with Cons.IH have "str_contains sub cs" by blast
      then show ?thesis by simp
    qed
  qed
qed

lemma build_assertion_info_Inr:
  assumes "build_assertion_info check_type defn urn af name = Inr a"
  shows "\<exists>t. check_type = JStr t
     \<and> (scope (datasetAssertion a), operator (datasetAssertion a), aggregation (datasetAssertion a))
        = classify (py_lower t) (list_truthy af)
     \<and> datasetFields (datasetAssertion a) = af
     \<and> dataset (datasetAssertion a) = urn
     \<and> nativeType (datasetAssertion a) = check_type"
  using assms
  by (cases check_type) (auto simp: build_assertion_info_def split: prod.splits)

lemma assertion_fields_of_Inr:
  assumes "assertion_fields_of lib urn column_name = Inr af"
  shows "list_truthy af \<longleftrightarrow> truthy column_name"
    and "\<not> truthy column_name \<Longrightarrow> af = None"
  using assms by (auto simp: assertion_fields_of_def split: if_splits sum.splits)

text \<open>
  C3, as the code has it: when a check is converted, its type is a string, and scope,
  operator and aggregation follow from the lower-cased type by the first rule that
  matches, in this order: contains null or missing: NOT_NULL and IDENTITY; else contains
  unique: UNIQUE_COUNT; else contains row_count or count: ROW_COUNT on the rows; else
  contains schema: COLUMNS on the schema; else native and native. Where the scope depends
  on the column, it is DATASET_COLUMN when the column is true in a condition (present,
  not null and not empty) and DATASET_ROWS otherwise. So a type that contains unique, and
  neither null nor missing, with a non-empty column, gives DATASET_COLUMN and
  UNIQUE_COUNT.
\<close>

theorem C3_classification_priority:
  assumes "converted (convert_check_to_assertion lib check dataset_urn scan_id scan_timestamp w)
             = Some (assertion_info, assertion_result)"
  shows "\<exists>t. dict_get check ''type'' (JStr ''unknown'') = JStr t \<and>
    (let has = (\<lambda>sub. str_contains sub (py_lower t));
         by_column = (if truthy (dict_get check ''column'' JNull)
                      then DATASET_COLUMN else DATASET_ROWS);
         d = datasetAssertion assertion_info;
         class = (scope d, operator d, aggregation d)
     in (has ''null'' \<or> has ''missing'' \<longrightarrow> class = (by_column, NOT_NULL, IDENTITY))
      \<and> (\<not> has ''null'' \<and> \<not> has ''missing'' \<and> has ''unique''
           \<longrightarrow> class = (by_column, OPERATOR_NATIVE, UNIQUE_COUNT))
      \<and> (\<not> has ''null'' \<and> \<not> has ''missing'' \<and> \<not> has ''unique''
           \<and> (has ''row_count'' \<or> has ''count'')
           \<longrightarrow> class = (DATASET_ROWS, OPERATOR_NATIVE, ROW_COUNT))
      \<and> (\<not> has ''null'' \<and> \<not> has ''missing'' \<and> \<not> has ''unique''
           \<and> \<not> has ''row_count'' \<and> \<not> has ''count'' \<and> has ''schema''
           \<longrightarrow> class = (DATASET_SCHEMA, OPERATOR_NATIVE, COLUMNS))
      \<and> (\<not> has ''null'' \<and> \<not> has ''missing'' \<and> \<not> has ''unique''
           \<and> \<not> has ''row_count'' \<and> \<not> has ''count'' \<and> \<not> has ''schema''
           \<longrightarrow> class = (by_column, OPERATOR_NATIVE, AGGREGATION_NATIVE)))"
proof -
  from assms have "convert_check_try lib check dataset_urn scan_id scan_timestamp
      (time_time lib (ticks w)) = Inr (assertion_info, assertion_result)"
    by (simp add: converted_iff)
  from convert_check_try_Inr [OF this] obtain af where
    fields: "assertion_fields_of lib dataset_urn (dict_get check ''column'' JNull) = Inr af"
    and info: "build_assertion_info (dict_get check ''type'' (JStr ''unknown''))
         (dict_get check ''definition'' (JStr [])) dataset_urn af
         (dict_get check ''name'' (JStr ''unknown_check'')) = Inr assertion_info"
    by blast
  from build_assertion_info_Inr [OF info] obtain t where
    t: "dict_get check ''type'' (JStr ''unknown'') = JStr t"
    and c: "(scope (datasetAssertion assertion_info), operator (datasetAssertion assertion_info),
             aggregation (datasetAssertion assertion_info))
            = classify (py_lower t) (list_truthy af)"
    by blast
  from assertion_fields_of_Inr(1) [OF fields]
  have col: "list_truthy af = truthy (dict_get check ''column'' JNull)" .
  from t c col show ?thesis
    unfolding Let_def classify_def by auto
qed

text \<open>
  C3 as stated fails twice. The type \<open>unique_not_null\<close> contains unique, the column
  \<open>id\<close> is not null, and the aggregation is IDENTITY: the rule for null comes first.
  The type \<open>unique\<close> with the empty string for a column, which is not null, has the
  scope DATASET_ROWS.
\<close>

theorem C3_unique_counterexample:
  "truthy (JStr ''id'')
   \<and> map_option (\<lambda>p. aggregation (datasetAssertion (fst p)))
       (converted (convert_check_to_assertion sample_lib (unique_check ''unique_not_null'' (JStr ''id''))
          sample_dataset_urn ''scan_1'' sample_timestamp world0)) = Some IDENTITY
   \<and> str_contains ''unique'' (py_lower ''unique_not_null'')
   \<and> JStr [] \<noteq> JNull
   \<and> map_option (\<lambda>p. scope (datasetAssertion (fst p)))
       (converted (convert_check_to_assertion sample_lib (unique_check ''unique'' (JStr []))
          sample_dataset_urn ''scan_1'' sample_timestamp world0)) = Some DATASET_ROWS"
  by code_simp

lemma unique_converted:
  "converted (convert_check_to_assertion sample_lib (unique_check ''Unique_Values'' (JStr ''email''))
          sample_dataset_urn ''scan_1'' sample_timestamp world0) \<noteq> None"
  by code_simp

theorem C3_classification_priority_witness:
  "map_option (\<lambda>p. (scope (datasetAssertion (fst p)), operator (datasetAssertion (fst p)),
        aggregation (datasetAssertion (fst p))))
     (converted (convert_check_to_assertion sample_lib (unique_check ''Unique_Values'' (JStr ''email''))
          sample_dataset_urn ''scan_1'' sample_timestamp world0))
     = Some (DATASET_COLUMN, OPERATOR_NATIVE, UNIQUE_COUNT)
   \<and> str_contains ''unique'' (py_lower ''Unique_Values'')"
proof -
  obtain a r where c: "converted (convert_check_to_assertion sample_lib
      (unique_check ''Unique_Values'' (JStr ''email''))
      sample_dataset_urn ''scan_1'' sample_timestamp world0) = Some (a, r)"
    using unique_converted by (cases "converted (convert_check_to_assertion sample_lib
      (unique_check ''Unique_Values'' (JStr ''email''))
      sample_dataset_urn ''scan_1'' sample_timestamp world0)") auto
  have t: "dict_get (unique_check ''Unique_Values'' (JStr ''email'')) ''type'' (JStr ''unknown'')
     = JStr ''Unique_Values''"
    by code_simp
  have col: "truthy (dict_get (unique_check ''Unique_Values'' (JStr ''email'')) ''column'' JNull)"
    by code_simp
  have h: "\<not> str_contains ''null'' (py_lower ''Unique_Values'')
     \<and> \<not> str_contains ''missing'' (py_lower ''Unique_Values'')
     \<and> str_contains ''unique'' (py_lower ''Unique_Values'')"
    by code_simp
  from C3_classification_priority [OF c] t col h c show ?thesis
    by (auto simp: Let_def)
qed

subsection \<open>Exceptions of the conversion\<close>

text \<open>
  C7: \<^verbatim>\<open>_convert_check_to_assertion\<close> raises for no check; when its \<^verbatim>\<open>try\<close>
  block raises an exception, whatever the statement that raised it, the call logs one
  warning and returns \<open>(None, None)\<close>.
\<close>

theorem C7_convert_never_raises:
  "(\<forall>e. fst (convert_check_to_assertion lib check dataset_urn scan_id scan_timestamp w) \<noteq> Inl e)
   \<and> (\<forall>e. convert_check_try lib check dataset_urn scan_id scan_timestamp
             (time_time lib (ticks w)) = Inl e
          \<longrightarrow> convert_check_to_assertion lib check dataset_urn scan_id scan_timestamp w
              = (Inr (None, None),
                 logger WARNING (''Failed to convert check to assertion: '' @ str_exn e) w))"
  by (auto simp: convert_check_to_assertion_def logger_def split: sum.splits)

theorem C7_convert_never_raises_witness:
  "convert_check_try sample_lib null_outcome_check sample_dataset_urn ''scan_1'' sample_timestamp
      (time_time sample_lib (ticks world0))
     = Inl (no_attribute JNull ''lower'')
   \<and> convert_check_to_assertion sample_lib null_outcome_check sample_dataset_urn ''scan_1''
       sample_timestamp world0
     = (Inr (None, None),
        logger WARNING (''Failed to convert check to assertion: ''
          @ str_exn (no_attribute JNull ''lower'')) world0)"
proof -
  have raised: "convert_check_try sample_lib null_outcome_check sample_dataset_urn ''scan_1''
      sample_timestamp (time_time sample_lib (ticks world0)) = Inl (no_attribute JNull ''lower'')"
    by code_simp
  from C7_convert_never_raises [of sample_lib null_outcome_check sample_dataset_urn
      "''scan_1''" sample_timestamp world0] raised
  show ?thesis by blast
qed

text \<open>
  The statements of the \<^verbatim>\<open>try\<close> block that raise on a parsed JSON document: the
  lower-casing of an outcome that is not a string, the loop over metrics that are not
  iterable, the parsing of an infinite row count (an OverflowError, which
  \<^verbatim>\<open>parse_int_or_default\<close> does not catch), the field URN of a dataset that is not a
  URN, and the lower-casing of a type that is not a string. Each ends in \<open>(None, None)\<close>.
\<close>

lemma conversion_raise_sites:
  "raised_kind (convert_check_try sample_lib null_outcome_check sample_dataset_urn ''scan_1''
      sample_timestamp (time_time sample_lib 0)) = Some AttributeError
   \<and> raised_kind (convert_check_try sample_lib number_metrics_check sample_dataset_urn ''scan_1''
      sample_timestamp (time_time sample_lib 0)) = Some TypeError
   \<and> raised_kind (parse_int_or_default sample_lib (JFloat (Infinity False)) None)
      = Some OverflowError
   \<and> raised_kind (convert_check_try sample_lib infinite_row_count_check sample_dataset_urn
      ''scan_1'' sample_timestamp (time_time sample_lib 0)) = Some OverflowError
   \<and> raised_kind (convert_check_try sample_lib users_id_not_null ''users'' ''scan_1''
      sample_timestamp (time_time sample_lib 0)) = Some AssertionError
   \<and> raised_kind (convert_check_try sample_lib number_type_check sample_dataset_urn ''scan_1''
      sample_timestamp (time_time sample_lib 0)) = Some AttributeError
   \<and> fst (convert_check_to_assertion sample_lib infinite_row_count_check sample_dataset_urn
      ''scan_1'' sample_timestamp world0) = Inr (None, None)
   \<and> fst (convert_check_to_assertion sample_lib users_id_not_null ''users'' ''scan_1''
      sample_timestamp world0) = Inr (None, None)"
  by code_simp

subsection \<open>The dataset URN\<close>

text \<open>The platform and the dataset name of the code are those of the specification.\<close>

lemma code_platform:
  "(case (case al of Some a \<Rightarrow> if a \<noteq> [] then Some a else None | None \<Rightarrow> None) of
      Some a \<Rightarrow> a
    | None \<Rightarrow> (case map_of platform_map (str_lower lib ds) of
                 Some p \<Rightarrow> p
               | None \<Rightarrow> str_lower lib ds))
   = spec_platform lib al ds"
  by (cases al) (simp_all add: spec_platform_def)

lemma code_dataset_name:
  "(if db \<noteq> [] \<and> sc \<noteq> [] then db @ ''.'' @ sc @ ''.'' @ tb
    else if sc \<noteq> [] then sc @ ''.'' @ tb else tb)
   = spec_dataset_name db sc tb"
  by (simp add: spec_dataset_name_def)

text \<open>
  C6: \<^verbatim>\<open>_build_dataset_urn\<close> is a function of its arguments, of the handler's
  settings and of the SDK's URN builder. The URN is the one the builder makes of four
  components: the platform (the alias, else the lower-cased data-source name looked up
  in the table), the dataset name (database.schema.table, or schema.table, or the table,
  as the specification composes them), the platform instance and the environment; it is
  null when the builder raises. The lowercase flag applies \<^verbatim>\<open>str.lower()\<close> to the
  composed dataset name, and to it only: the platform and the environment are passed on
  as they are, whatever the flag.
\<close>

theorem C6_dataset_urn_composition:
  "fst (build_dataset_urn lib self data_source_name database_name schema_name table_name
          platform_instance) =
     (case make_dataset_urn_with_platform_instance lib
             (spec_platform lib (platform_alias self) data_source_name)
             (if convert_urns_to_lowercase self
              then str_lower lib (spec_dataset_name database_name schema_name table_name)
              else spec_dataset_name database_name schema_name table_name)
             (case platform_instance of Some i \<Rightarrow> i | None \<Rightarrow> [])
             (env self) of
        Inr urn \<Rightarrow> Some urn
      | Inl e \<Rightarrow> None)"
proof -
  let ?r = "make_dataset_urn_with_platform_instance lib
             (spec_platform lib (platform_alias self) data_source_name)
             (if convert_urns_to_lowercase self
              then str_lower lib (spec_dataset_name database_name schema_name table_name)
              else spec_dataset_name database_name schema_name table_name)
             (case platform_instance of Some i \<Rightarrow> i | None \<Rightarrow> [])
             (env self)"
  have "build_dataset_urn lib self data_source_name database_name schema_name table_name
          platform_instance =
        (case ?r of Inr urn \<Rightarrow> (Some urn, [])
         | Inl e \<Rightarrow> (None, [(WARNING, ''Failed to build dataset URN: '' @ str_exn e)]))"
    unfolding build_dataset_urn_def Let_def code_platform code_dataset_name ..
  then show ?thesis by (cases ?r) simp_all
qed

theorem C6_dataset_urn_composition_witness:
  "fst (build_dataset_urn sample_lib lowercase_handler ''Postgres'' ''MyDB'' ''Public'' ''Users''
          (Some ''Prod_Cluster''))
     = Some ''urn:li:dataset:(urn:li:dataPlatform:MyWarehouse,Prod_Cluster.mydb.public.users,TEST)''
   \<and> spec_dataset_name ''MyDB'' ''Public'' ''Users'' = ''MyDB.Public.Users''
   \<and> spec_dataset_name [] ''Public'' ''Users'' = ''Public.Users''
   \<and> spec_dataset_name ''MyDB'' [] ''Users'' = ''Users''"
proof -
  have "(case make_dataset_urn_with_platform_instance sample_lib
             (spec_platform sample_lib (platform_alias lowercase_handler) ''Postgres'')
             (if convert_urns_to_lowercase lowercase_handler
              then str_lower sample_lib (spec_dataset_name ''MyDB'' ''Public'' ''Users'')
              else spec_dataset_name ''MyDB'' ''Public'' ''Users'')
             (case Some ''Prod_Cluster'' of Some i \<Rightarrow> i | None \<Rightarrow> [])
             (env lowercase_handler) of
        Inr urn \<Rightarrow> Some urn
      | Inl e \<Rightarrow> None)
     = Some ''urn:li:dataset:(urn:li:dataPlatform:MyWarehouse,Prod_Cluster.mydb.public.users,TEST)''"
    by code_simp
  moreover have "spec_dataset_name ''MyDB'' ''Public'' ''Users'' = ''MyDB.Public.Users''
   \<and> spec_dataset_name [] ''Public'' ''Users'' = ''Public.Users''
   \<and> spec_dataset_name ''MyDB'' [] ''Users'' = ''Users''"
    by code_simp
  ultimately show ?thesis
    using C6_dataset_urn_composition [of sample_lib lowercase_handler "''Postgres''" "''MyDB''"
      "''Public''" "''Users''" "Some ''Prod_Cluster''"]
    by simp
qed

subsection \<open>The assertion identifier\<close>













subsection \<open>The policy validator\<close>

text \<open>The loop that appends to \<^verbatim>\<open>details\<close> maps the policies to their entries.\<close>

lemma details_loop:
  "foldl (\<lambda>details policy. details @ [policy_detail policy]) acc policies
     = acc @ map policy_detail policies"
  by (induction policies arbitrary: acc) simp_all

text \<open>
  C10: for every dataset URN, every list of policies and every scan result, present or
  not, \<^verbatim>\<open>validate_governance_policies\<close> reports as many validated policies as the
  list has, 0 compliant and 0 non-compliant, and one detail entry for each policy, each
  with the status \<open>validated\<close>; the result is the same without the scan result.
\<close>

theorem C10_validate_is_a_stub:
  "(let validation_results = fst (validate_governance_policies dataset_urn policies scan_result)
    in map_of validation_results ''policies_validated'' = Some (JInt (int (length policies)))
     \<and> map_of validation_results ''compliant'' = Some (JInt 0)
     \<and> map_of validation_results ''non_compliant'' = Some (JInt 0)
     \<and> (\<exists>details. map_of validation_results ''details'' = Some (JList details)
           \<and> length details = length policies
           \<and> (\<forall>detail \<in> set details. \<exists>d. detail = JDict d
                 \<and> map_of d ''status'' = Some (JStr ''validated''))))
   \<and> validate_governance_policies dataset_urn policies scan_result
       = validate_governance_policies dataset_urn policies None"
proof -
  have res: "fst (validate_governance_policies dataset_urn policies scan_result) =
     [(''dataset_urn'', JStr dataset_urn),
      (''policies_validated'', JInt (int (length policies))),
      (''compliant'', JInt 0),
      (''non_compliant'', JInt 0),
      (''details'', JList (map policy_detail policies))]"
    by (simp add: validate_governance_policies_def details_loop)
  have each: "\<forall>detail \<in> set (map policy_detail policies).
      \<exists>d. detail = JDict d \<and> map_of d ''status'' = Some (JStr ''validated'')"
    by (auto simp: policy_detail_def)
  have indep: "validate_governance_policies dataset_urn policies scan_result
       = validate_governance_policies dataset_urn policies None"
    by (simp add: validate_governance_policies_def)
  from each have "\<exists>details. JList (map policy_detail policies) = JList details
           \<and> length details = length policies
           \<and> (\<forall>detail \<in> set details. \<exists>d. detail = JDict d
                 \<and> map_of d ''status'' = Some (JStr ''validated''))"
    by (intro exI [of _ "map policy_detail policies"]) simp
  with indep show ?thesis
    unfolding Let_def res by simp
qed

theorem C10_validate_is_a_stub_witness:
  "map_of (fst (validate_governance_policies sample_dataset_urn sample_policies
             (Some sample_scan_result))) ''policies_validated'' = Some (JInt 2)
   \<and> map_of (fst (validate_governance_policies sample_dataset_urn sample_policies
             (Some sample_scan_result))) ''details''
       = Some (JList [JDict [(''policy'', JStr ''Data Quality Policy''),
                             (''type'', JStr ''data_quality''), (''status'', JStr ''validated'')],
                      JDict [(''policy'', JStr ''Schema Policy''),
                             (''type'', JStr ''schema''), (''status'', JStr ''validated'')]])"
proof -
  have l: "int (length sample_policies) = 2" by (simp add: sample_policies_def)
  have d: "map_of (fst (validate_governance_policies sample_dataset_urn sample_policies
             (Some sample_scan_result))) ''details''
       = Some (JList [JDict [(''policy'', JStr ''Data Quality Policy''),
                             (''type'', JStr ''data_quality''), (''status'', JStr ''validated'')],
                      JDict [(''policy'', JStr ''Schema Policy''),
                             (''type'', JStr ''schema''), (''status'', JStr ''validated'')]])"
    by code_simp
  from C10_validate_is_a_stub [of sample_dataset_urn sample_policies "Some sample_scan_result"]
  have "map_of (fst (validate_governance_policies sample_dataset_urn sample_policies
             (Some sample_scan_result))) ''policies_validated''
        = Some (JInt (int (length sample_policies)))"
    unfolding Let_def by blast
  with l d show ?thesis by simp
qed

subsection \<open>Emitting the assertions\<close>


lemma logger_effects [simp]:
  "emit_calls (logger level msg w) = emit_calls w"
  "ticks (logger level msg w) = ticks w"
  by (simp_all add: logger_def)

lemma convert_emit_calls:
  "emit_calls (snd (convert_check_to_assertion lib check urn sid ts w)) = emit_calls w"
  by (simp add: convert_check_to_assertion_def split: sum.splits)

lemma convert_cases:
  "(\<exists>a r. fst (convert_check_to_assertion lib check urn sid ts w) = Inr (Some a, Some r)
      \<and> converted (convert_check_to_assertion lib check urn sid ts w) = Some (a, r))
   \<or> (fst (convert_check_to_assertion lib check urn sid ts w) = Inr (None, None)
      \<and> converted (convert_check_to_assertion lib check urn sid ts w) = None)"
  by (auto simp: convert_check_to_assertion_def converted_def split: sum.splits)

lemma emit_mcp_ok:
  "emit_failure lib (emit_calls w) m = None \<Longrightarrow>
   emit_mcp lib m w = (Inr (), w\<lparr>emit_calls := emit_calls w @ [m]\<rparr>)"
  by (simp add: emit_mcp_def)

lemma emit_mcp_fails:
  "emit_failure lib (emit_calls w) m = Some e \<Longrightarrow>
   emit_mcp lib m w = (Inl e, w\<lparr>emit_calls := emit_calls w @ [m]\<rparr>)"
  by (simp add: emit_mcp_def)

lemma check_step_converted:
  assumes "fst (convert_check_to_assertion lib check urn sid ts w) = Inr (Some a, Some r)"
  shows "check_step lib urn sid ts check n w
         = emit_three lib a r n (snd (convert_check_to_assertion lib check urn sid ts w))"
  using assms
  by (cases "convert_check_to_assertion lib check urn sid ts w")
     (simp add: check_step_def emit_three_def)

lemma check_step_not_converted:
  assumes "fst (convert_check_to_assertion lib check urn sid ts w) = Inr (None, None)"
  shows "check_step lib urn sid ts check n w
         = (Inr n, snd (convert_check_to_assertion lib check urn sid ts w))"
  using assms
  by (cases "convert_check_to_assertion lib check urn sid ts w")
     (simp add: check_step_def)

lemma emit_three_cases:
  fixes lib a r n w1
  defines "t \<equiv> emitted_triple lib (a, r)"
  defines "res \<equiv> emit_three lib a r n w1"
  shows "(fst res = Inr (n + 1) \<and> emit_calls (snd res) = emit_calls w1 @ t
            \<and> (\<forall>k<3. emit_failure lib (emit_calls w1 @ take k t) (t ! k) = None))
       \<or> (\<exists>k e. k < 3 \<and> fst res = Inl e \<and> emit_calls (snd res) = emit_calls w1 @ take (Suc k) t
            \<and> emit_failure lib (emit_calls w1 @ take k t) (t ! k) = Some e
            \<and> (\<forall>j<k. emit_failure lib (emit_calls w1 @ take j t) (t ! j) = None))"
proof -
  let ?m1 = "assertion_info_mcp a r" and ?m2 = "assertion_platform_mcp lib r"
    and ?m3 = "assertion_result_mcp r"
  have t: "t = [?m1, ?m2, ?m3]" by (simp add: t_def emitted_triple_def)
  show ?thesis
  proof (cases "emit_failure lib (emit_calls w1) ?m1")
    case (Some e)
    then have "res = (Inl e, w1\<lparr>emit_calls := emit_calls w1 @ [?m1]\<rparr>)"
      by (simp add: res_def emit_three_def emit_mcp_fails)
    with Some have "0 < (3::nat) \<and> fst res = Inl e
        \<and> emit_calls (snd res) = emit_calls w1 @ take (Suc 0) t
        \<and> emit_failure lib (emit_calls w1 @ take 0 t) (t ! 0) = Some e
        \<and> (\<forall>j<0::nat. emit_failure lib (emit_calls w1 @ take j t) (t ! j) = None)"
      by (simp add: t)
    then show ?thesis by blast
  next
    case f1: None
    let ?w2 = "w1\<lparr>emit_calls := emit_calls w1 @ [?m1]\<rparr>"
    show ?thesis
    proof (cases "emit_failure lib (emit_calls w1 @ [?m1]) ?m2")
      case (Some e)
      then have "res = (Inl e, ?w2\<lparr>emit_calls := emit_calls ?w2 @ [?m2]\<rparr>)"
        using f1 by (simp add: res_def emit_three_def emit_mcp_ok emit_mcp_fails)
      with Some f1 have "1 < (3::nat) \<and> fst res = Inl e
        \<and> emit_calls (snd res) = emit_calls w1 @ take (Suc 1) t
        \<and> emit_failure lib (emit_calls w1 @ take 1 t) (t ! 1) = Some e
        \<and> (\<forall>j<1::nat. emit_failure lib (emit_calls w1 @ take j t) (t ! j) = None)"
        by (simp add: t)
      then show ?thesis by blast
    next
      case f2: None
      let ?w3 = "?w2\<lparr>emit_calls := emit_calls ?w2 @ [?m2]\<rparr>"
      show ?thesis
      proof (cases "emit_failure lib (emit_calls w1 @ [?m1, ?m2]) ?m3")
        case (Some e)
        then have "res = (Inl e, ?w3\<lparr>emit_calls := emit_calls ?w3 @ [?m3]\<rparr>)"
          using f1 f2 by (simp add: res_def emit_three_def emit_mcp_ok emit_mcp_fails)
        with Some f1 f2 have "2 < (3::nat) \<and> fst res = Inl e
          \<and> emit_calls (snd res) = emit_calls w1 @ take (Suc 2) t
          \<and> emit_failure lib (emit_calls w1 @ take 2 t) (t ! 2) = Some e
          \<and> (\<forall>j<2::nat. emit_failure lib (emit_calls w1 @ take j t) (t ! j) = None)"
          by (simp add: t less_Suc_eq numeral_2_eq_2)
        then show ?thesis by blast
      next
        case f3: None
        then have "res = (Inr (n + 1), ?w3\<lparr>emit_calls := emit_calls ?w3 @ [?m3]\<rparr>)"
          using f1 f2 by (simp add: res_def emit_three_def emit_mcp_ok)
        with f1 f2 f3 have "fst res = Inr (n + 1) \<and> emit_calls (snd res) = emit_calls w1 @ t
            \<and> (\<forall>k<3. emit_failure lib (emit_calls w1 @ take k t) (t ! k) = None)"
          by (simp add: t less_Suc_eq numeral_3_eq_3)
        then show ?thesis by blast
      qed
    qed
  qed
qed


lemma check_step_effect:
  fixes lib urn sid ts check n w
  defines "res \<equiv> check_step lib urn sid ts check n w"
  defines "conv \<equiv> converted (convert_check_to_assertion lib check urn sid ts w)"
  shows "(conv = None \<longrightarrow> fst res = Inr n \<and> emit_calls (snd res) = emit_calls w)
       \<and> (\<forall>p. conv = Some p \<longrightarrow>
            (fst res = Inr (n + 1) \<and> emit_calls (snd res) = emit_calls w @ emitted_triple lib p
               \<and> (\<forall>k<3. emit_failure lib (emit_calls w @ take k (emitted_triple lib p))
                            (emitted_triple lib p ! k) = None))
          \<or> (\<exists>k e. k < 3 \<and> fst res = Inl e
               \<and> emit_calls (snd res) = emit_calls w @ take (Suc k) (emitted_triple lib p)
               \<and> emit_failure lib (emit_calls w @ take k (emitted_triple lib p))
                    (emitted_triple lib p ! k) = Some e
               \<and> (\<forall>j<k. emit_failure lib (emit_calls w @ take j (emitted_triple lib p))
                            (emitted_triple lib p ! j) = None)))"
proof -
  let ?c = "convert_check_to_assertion lib check urn sid ts w"
  from convert_cases [of lib check urn sid ts w] show ?thesis
  proof (elim disjE exE conjE)
    fix a r
    assume f: "fst ?c = Inr (Some a, Some r)" and c: "converted ?c = Some (a, r)"
    have "res = emit_three lib a r n (snd ?c)"
      unfolding res_def by (rule check_step_converted [OF f])
    with emit_three_cases [of lib a r n "snd ?c"] c show ?thesis
      by (simp add: conv_def convert_emit_calls)
  next
    assume f: "fst ?c = Inr (None, None)" and c: "converted ?c = None"
    have "res = (Inr n, snd ?c)"
      unfolding res_def by (rule check_step_not_converted [OF f])
    with c show ?thesis by (simp add: conv_def convert_emit_calls)
  qed
qed

lemma triples_added_refl: "emit_calls w' = emit_calls w \<Longrightarrow> triples_added lib n w n w'"
  unfolding triples_added_def by (intro exI [of _ "[]"]) simp

lemma triples_added_trans:
  assumes "triples_added lib n w n' w'" and "triples_added lib n' w' n'' w''"
  shows "triples_added lib n w n'' w''"
proof -
  from assms obtain ps qs where
    "emit_calls w' = emit_calls w @ concat (map (emitted_triple lib) ps)" "n' = n + length ps"
    "emit_calls w'' = emit_calls w' @ concat (map (emitted_triple lib) qs)" "n'' = n' + length qs"
    unfolding triples_added_def by blast
  then have "emit_calls w'' = emit_calls w @ concat (map (emitted_triple lib) (ps @ qs))
     \<and> n'' = n + length (ps @ qs)"
    by simp
  then show ?thesis unfolding triples_added_def by blast
qed

lemma check_step_triples:
  assumes "check_step lib urn sid ts check n w = (Inr n', w')"
  shows "triples_added lib n w n' w'"
proof (cases "converted (convert_check_to_assertion lib check urn sid ts w)")
  case None
  with check_step_effect [of lib check urn sid ts w n] assms
  have "n' = n \<and> emit_calls w' = emit_calls w" by simp
  then show ?thesis by (simp add: triples_added_refl)
next
  case (Some p)
  with check_step_effect [of lib check urn sid ts w n] assms
  have "n' = n + 1 \<and> emit_calls w' = emit_calls w @ emitted_triple lib p" by auto
  then have "emit_calls w' = emit_calls w @ concat (map (emitted_triple lib) [p])
     \<and> n' = n + length [p]" by simp
  then show ?thesis unfolding triples_added_def by blast
qed

lemma for_loop_io_triples:
  assumes "for_loop_io body xs n w = (Inr n', w')"
    and body: "\<And>x n w n' w'. body x n w = (Inr n', w') \<Longrightarrow> triples_added lib n w n' w'"
  shows "triples_added lib n w n' w'"
  using assms(1)
proof (induction xs arbitrary: n w)
  case Nil
  then show ?case by (simp add: triples_added_refl)
next
  case (Cons x xs)
  obtain r1 w1 where b: "body x n w = (r1, w1)" by (cases "body x n w")
  with Cons.prems obtain n1 where r1: "r1 = Inr n1"
    and rest: "for_loop_io body xs n1 w1 = (Inr n', w')"
    by (cases r1) auto
  from body b r1 have "triples_added lib n w n1 w1" by simp
  with Cons.IH [OF rest] show ?case by (blast intro: triples_added_trans)
qed

lemma table_step_triples:
  assumes "table_step lib self ds cs sid ts t n w = (Inr n', w')"
  shows "triples_added lib n w n' w'"
proof -
  let ?b = "build_dataset_urn lib self ds (case databaseName t of Some s \<Rightarrow> s | None \<Rightarrow> [])
      (case schemaName t of Some s \<Rightarrow> s | None \<Rightarrow> [])
      (case tableName t of Some s \<Rightarrow> s | None \<Rightarrow> [])
      (map_of (platform_instance_map self) ds)"
  obtain built logged where b: "?b = (built, logged)" by (cases ?b)
  let ?w1 = "w\<lparr>log_records := log_records w @ logged\<rparr>"
  let ?urn = "case built of Some u \<Rightarrow> u | None \<Rightarrow> []"
  show ?thesis
  proof (cases "?urn = []")
    case True
    with assms b have "n' = n \<and> emit_calls w' = emit_calls w"
      by (auto simp: table_step_def Let_def)
    then show ?thesis by (simp add: triples_added_refl)
  next
    case False
    let ?w2 = "logger INFO (''Processing dataset: '' @ ?urn) ?w1"
    from False assms b
    have loop: "for_loop_io (check_step lib ?urn sid ts)
        (filter (check_matches (case tableName t of Some s \<Rightarrow> s | None \<Rightarrow> [])
           (case schemaName t of Some s \<Rightarrow> s | None \<Rightarrow> [])) cs) n ?w2 = (Inr n', w')"
      by (simp add: table_step_def Let_def)
    have "triples_added lib n ?w2 n' w'"
      by (rule for_loop_io_triples [OF loop]) (rule check_step_triples)
    then show ?thesis by (simp add: triples_added_def)
  qed
qed

lemma process_scan_try_triples:
  assumes "process_scan_try lib self sr ts w = (Inr d, w')"
  shows "\<exists>n sid. d = [(''status'', JStr ''success''), (''assertions_sent'', JInt (int n)),
                      (''scan_id'', JStr sid)]
           \<and> triples_added lib 0 w n w'"
proof -
  from assms have init: "DatahubRestEmitter lib self = None"
    by (auto simp: process_scan_try_def split: option.splits)
  let ?sid = "case scanId sr of Some s \<Rightarrow> s
     | None \<Rightarrow> ''scan_'' @ str_int (seconds (time_time lib (ticks w)))"
  let ?ds = "case dataSourceName sr of Some s \<Rightarrow> s | None \<Rightarrow> ''unknown''"
  let ?w2 = "logger INFO (''Processing Soda scan '' @ ?sid @ '' with ''
                    @ str_nat (length (checks sr)) @ '' checks'') (w\<lparr>ticks := Suc (ticks w)\<rparr>)"
  let ?loop = "for_loop_io (table_step lib self ?ds (checks sr) ?sid ts) (tables sr) 0 ?w2"
  obtain r3 w3 where l: "?loop = (r3, w3)" by (cases ?loop)
  with assms init obtain n where r3: "r3 = Inr n"
    and d: "d = [(''status'', JStr ''success''), (''assertions_sent'', JInt (int n)),
                 (''scan_id'', JStr ?sid)]"
    and w': "w' = logger INFO
             (''Successfully sent '' @ str_nat n @ '' assertions to DataHub'') w3"
    by (cases r3) (auto simp: process_scan_try_def Let_def)
  from l r3 have "?loop = (Inr n, w3)" by simp
  then have "triples_added lib 0 ?w2 n w3"
    by (rule for_loop_io_triples) (rule table_step_triples)
  then have "triples_added lib 0 w n w'"
    by (simp add: triples_added_def w')
  with d show ?thesis by blast
qed


lemma process_scan_result_success:
  assumes "process_scan_result lib self sr ts w = (Inr d, w')"
    and "map_of d ''status'' = Some (JStr ''success'')"
  shows "process_scan_try lib self sr (case ts of None \<Rightarrow> utc_now lib | Some t \<Rightarrow> t) w
           = (Inr d, w')"
proof -
  let ?t = "process_scan_try lib self sr (case ts of None \<Rightarrow> utc_now lib | Some t \<Rightarrow> t) w"
  obtain r1 w1 where t: "?t = (r1, w1)" by (cases ?t)
  show ?thesis
  proof (cases r1)
    case (Inr d1)
    with t assms(1) show ?thesis by (simp add: process_scan_result_def)
  next
    case (Inl e)
    with t assms(1) have "d = [(''status'', JStr ''error''),
        (''error'', JStr (''Failed to process Soda scan result: '' @ str_exn e))]"
      by (simp add: process_scan_result_def Let_def split: if_splits)
    with assms(2) show ?thesis by simp
  qed
qed

text \<open>
  C9: for a check that maps to a non-null pair, the calls of the emitter are the three
  proposals of the pair, in the order definition, platform (the URN of the platform
  \<open>soda\<close>), outcome, all three with the assertion URN of the outcome as their entity;
  the counter is incremented when all three have returned, and when one of them raises,
  the calls stop with it and the exception leaves the step with the counter as it was.
  A check that maps to the null pair causes no call and leaves the counter. When the
  whole call succeeds, the calls it made are complete triples, and \<open>assertions_sent\<close> is
  their number.
\<close>

theorem C9_three_emits_then_count:
  "(let res = check_step lib dataset_urn scan_id scan_timestamp check assertions_sent w;
        conv = converted (convert_check_to_assertion lib check dataset_urn scan_id scan_timestamp w)
    in (conv = None \<longrightarrow> fst res = Inr assertions_sent \<and> emit_calls (snd res) = emit_calls w)
     \<and> (\<forall>p. conv = Some p \<longrightarrow>
            (fst res = Inr (assertions_sent + 1)
               \<and> emit_calls (snd res) = emit_calls w @ emitted_triple lib p
               \<and> (\<forall>k<3. emit_failure lib (emit_calls w @ take k (emitted_triple lib p))
                            (emitted_triple lib p ! k) = None))
          \<or> (\<exists>k e. k < 3 \<and> fst res = Inl e
               \<and> emit_calls (snd res) = emit_calls w @ take (Suc k) (emitted_triple lib p)
               \<and> emit_failure lib (emit_calls w @ take k (emitted_triple lib p))
                    (emitted_triple lib p ! k) = Some e
               \<and> (\<forall>j<k. emit_failure lib (emit_calls w @ take j (emitted_triple lib p))
                            (emitted_triple lib p ! j) = None))))
   \<and> emitted_triple lib (assertion_info, assertion_result) =
       [\<lparr> entityUrn = assertionUrn assertion_result, aspect = InfoAspect assertion_info \<rparr>,
        \<lparr> entityUrn = assertionUrn assertion_result,
          aspect = PlatformAspect \<lparr> platform = make_data_platform_urn lib ''soda'' \<rparr> \<rparr>,
        \<lparr> entityUrn = assertionUrn assertion_result, aspect = RunAspect assertion_result \<rparr>]
   \<and> (\<forall>d w'. process_scan_result lib self scan_result timestamp w0 = (Inr d, w')
          \<and> map_of d ''status'' = Some (JStr ''success'')
        \<longrightarrow> (\<exists>pairs. emit_calls w' = emit_calls w0 @ concat (map (emitted_triple lib) pairs)
               \<and> map_of d ''assertions_sent'' = Some (JInt (int (length pairs)))))"
proof -
  have step: "(let res = check_step lib dataset_urn scan_id scan_timestamp check assertions_sent w;
        conv = converted (convert_check_to_assertion lib check dataset_urn scan_id scan_timestamp w)
    in (conv = None \<longrightarrow> fst res = Inr assertions_sent \<and> emit_calls (snd res) = emit_calls w)
     \<and> (\<forall>p. conv = Some p \<longrightarrow>
            (fst res = Inr (assertions_sent + 1)
               \<and> emit_calls (snd res) = emit_calls w @ emitted_triple lib p
               \<and> (\<forall>k<3. emit_failure lib (emit_calls w @ take k (emitted_triple lib p))
                            (emitted_triple lib p ! k) = None))
          \<or> (\<exists>k e. k < 3 \<and> fst res = Inl e
               \<and> emit_calls (snd res) = emit_calls w @ take (Suc k) (emitted_triple lib p)
               \<and> emit_failure lib (emit_calls w @ take k (emitted_triple lib p))
                    (emitted_triple lib p ! k) = Some e
               \<and> (\<forall>j<k. emit_failure lib (emit_calls w @ take j (emitted_triple lib p))
                            (emitted_triple lib p ! j) = None))))"
    unfolding Let_def by (rule check_step_effect)
  have triple: "emitted_triple lib (assertion_info, assertion_result) =
       [\<lparr> entityUrn = assertionUrn assertion_result, aspect = InfoAspect assertion_info \<rparr>,
        \<lparr> entityUrn = assertionUrn assertion_result,
          aspect = PlatformAspect \<lparr> platform = make_data_platform_urn lib ''soda'' \<rparr> \<rparr>,
        \<lparr> entityUrn = assertionUrn assertion_result, aspect = RunAspect assertion_result \<rparr>]"
    by (simp add: emitted_triple_def assertion_info_mcp_def assertion_platform_mcp_def
          assertion_result_mcp_def SODA_PLATFORM_NAME_def)
  have run: "\<exists>pairs. emit_calls w' = emit_calls w0 @ concat (map (emitted_triple lib) pairs)
               \<and> map_of d ''assertions_sent'' = Some (JInt (int (length pairs)))"
    if "process_scan_result lib self scan_result timestamp w0 = (Inr d, w')"
      and "map_of d ''status'' = Some (JStr ''success'')" for d w'
  proof -
    from process_scan_try_triples [OF process_scan_result_success [OF that]]
    obtain n sid where d: "d = [(''status'', JStr ''success''),
        (''assertions_sent'', JInt (int n)), (''scan_id'', JStr sid)]"
      and t: "triples_added lib 0 w0 n w'"
      by blast
    from t obtain pairs where
      "emit_calls w' = emit_calls w0 @ concat (map (emitted_triple lib) pairs)" "n = length pairs"
      unfolding triples_added_def by auto
    with d show ?thesis by auto
  qed
  from step triple run show ?thesis by blast
qed

text \<open>The scan result of the unit tests: two assertions, six calls.\<close>

lemma length_triples: "length (concat (map (emitted_triple lib) pairs)) = 3 * length pairs"
  by (induction pairs) (simp_all add: emitted_triple_def)

lemma sample_run:
  "process_scan_result sample_lib sample_handler sample_scan_result None world0
     = (Inr [(''status'', JStr ''success''), (''assertions_sent'', JInt 2),
             (''scan_id'', JStr ''test_scan_123'')],
        snd (process_scan_result sample_lib sample_handler sample_scan_result None world0))"
  by code_simp

theorem C9_three_emits_then_count_witness:
  "fst (process_scan_result sample_lib sample_handler sample_scan_result None world0)
     = Inr [(''status'', JStr ''success''), (''assertions_sent'', JInt 2),
            (''scan_id'', JStr ''test_scan_123'')]
   \<and> (\<exists>pairs. emit_calls (snd (process_scan_result sample_lib sample_handler sample_scan_result
                   None world0)) = concat (map (emitted_triple sample_lib) pairs)
         \<and> length pairs = 2)
   \<and> length (emit_calls (snd (process_scan_result sample_lib sample_handler sample_scan_result
                   None world0))) = 6"
proof -
  let ?d = "[(''status'', JStr ''success''), (''assertions_sent'', JInt 2),
             (''scan_id'', JStr ''test_scan_123'')]"
  let ?w = "snd (process_scan_result sample_lib sample_handler sample_scan_result None world0)"
  have s: "map_of ?d ''status'' = Some (JStr ''success'')" by simp
  from C9_three_emits_then_count [of sample_lib _ _ _ _ _ _ _ _ sample_handler
      sample_scan_result None world0] sample_run s
  obtain pairs where p: "emit_calls ?w = emit_calls world0 @ concat (map (emitted_triple sample_lib) pairs)"
    and n: "map_of ?d ''assertions_sent'' = Some (JInt (int (length pairs)))"
    by blast
  from n have l: "length pairs = 2" by simp
  from p have e: "emit_calls ?w = concat (map (emitted_triple sample_lib) pairs)"
    by (simp add: world0_def)
  then have "length (emit_calls ?w) = 6" using l by (simp add: length_triples)
  with e l sample_run show ?thesis by (metis fst_conv)
qed

subsection \<open>The top-level handler\<close>

text \<open>
  C8: when an exception leaves the \<^verbatim>\<open>try\<close> block of \<^verbatim>\<open>process_scan_result\<close>
  (the construction of the emitter, or the loops over tables and checks), a handler
  constructed with \<^verbatim>\<open>graceful_exceptions\<close> true, which is the default, returns the
  dict with status \<open>error\<close> and the error message and raises nothing; a handler
  constructed with \<^verbatim>\<open>graceful_exceptions\<close> false raises the same exception again.
\<close>

theorem C8_graceful_or_reraise:
  assumes "self = init server_url' env' platform_alias' platform_instance_map' graceful'
             token' timeout_sec' retry_status_codes' retry_max_times' extra_headers' lowercase'"
    and "fst (process_scan_try lib self scan_result
               (case scan_timestamp of None \<Rightarrow> utc_now lib | Some t \<Rightarrow> t) w) = Inl e"
  shows "(graceful' = None \<or> graceful' = Some True \<longrightarrow>
            fst (process_scan_result lib self scan_result scan_timestamp w)
              = Inr [(''status'', JStr ''error''),
                     (''error'', JStr (''Failed to process Soda scan result: '' @ str_exn e))])
       \<and> (graceful' = Some False \<longrightarrow>
            fst (process_scan_result lib self scan_result scan_timestamp w) = Inl e)"
proof -
  let ?t = "process_scan_try lib self scan_result
               (case scan_timestamp of None \<Rightarrow> utc_now lib | Some t \<Rightarrow> t) w"
  obtain w1 where t: "?t = (Inl e, w1)" using assms(2) by (cases ?t) simp
  have g: "graceful_exceptions self = (case graceful' of None \<Rightarrow> True | Some b \<Rightarrow> b)"
    by (simp add: assms(1) init_def)
  have "fst (process_scan_result lib self scan_result scan_timestamp w) =
      (if graceful_exceptions self
       then Inr [(''status'', JStr ''error''),
                 (''error'', JStr (''Failed to process Soda scan result: '' @ str_exn e))]
       else Inl e)"
    by (simp add: process_scan_result_def t Let_def)
  with g show ?thesis by auto
qed

lemma failing_try:
  "fst (process_scan_try (failing_lib 4) sample_handler sample_scan_result
          (case None of None \<Rightarrow> utc_now (failing_lib 4) | Some t \<Rightarrow> t) world0)
     = Inl (Exn LibraryError ''connection refused'')
   \<and> fst (process_scan_try (failing_lib 4) strict_handler sample_scan_result
          (case None of None \<Rightarrow> utc_now (failing_lib 4) | Some t \<Rightarrow> t) world0)
     = Inl (Exn LibraryError ''connection refused'')"
  by code_simp

theorem C8_graceful_or_reraise_witness:
  "fst (process_scan_result (failing_lib 4) sample_handler sample_scan_result None world0)
     = Inr [(''status'', JStr ''error''),
            (''error'', JStr ''Failed to process Soda scan result: connection refused'')]
   \<and> fst (process_scan_result (failing_lib 4) strict_handler sample_scan_result None world0)
     = Inl (Exn LibraryError ''connection refused'')"
proof -
  from C8_graceful_or_reraise [OF sample_handler_def failing_try [THEN conjunct1]]
  have a: "fst (process_scan_result (failing_lib 4) sample_handler sample_scan_result None world0)
     = Inr [(''status'', JStr ''error''),
            (''error'', JStr (''Failed to process Soda scan result: ''
               @ str_exn (Exn LibraryError ''connection refused'')))]"
    by simp
  from C8_graceful_or_reraise [OF strict_handler_def failing_try [THEN conjunct2]]
  have b: "fst (process_scan_result (failing_lib 4) strict_handler sample_scan_result None world0)
     = Inl (Exn LibraryError ''connection refused'')"
    by simp
  from a b show ?thesis by simp
qed

subsection \<open>The join of checks and tables\<close>

text \<open>
  What is logged does not influence what a step returns, emits or reads from the clock.
\<close>


lemma same_effects_logger [simp]:
  "same_effects (logger l m w) w' = same_effects w w'"
  "same_effects w (logger l m w') = same_effects w w'"
  by (simp_all add: same_effects_def)

lemma same_effects_log_records [simp]:
  "same_effects (w\<lparr>log_records := x\<rparr>) w' = same_effects w w'"
  "same_effects w (w'\<lparr>log_records := x\<rparr>) = same_effects w w'"
  by (simp_all add: same_effects_def)

lemma same_effects_refl [simp]: "same_effects w w"
  by (simp add: same_effects_def)


















subsection \<open>The checks that are processed\<close>







lemma table_urn_built:
  "table_urn lib self ds t
     = (case fst (build_dataset_urn lib self ds
                    (case databaseName t of Some s \<Rightarrow> s | None \<Rightarrow> [])
                    (case schemaName t of Some s \<Rightarrow> s | None \<Rightarrow> [])
                    (case tableName t of Some s \<Rightarrow> s | None \<Rightarrow> [])
                    (map_of (platform_instance_map self) ds)) of
          Some urn \<Rightarrow> if urn = [] then None else Some urn
        | None \<Rightarrow> None)"
  by (simp add: table_urn_def)


















end
